theory Spec2Isabelle
  imports Main
begin

section \<open>The element lifecycle runtime of src/custom-element.js\<close>

text \<open>
  The development embeds the custom element prototype built by
  \<^verbatim>\<open>createAmpElementProto\<close>, the layout resolver \<^verbatim>\<open>applyLayout_\<close> and the registry
  function \<^verbatim>\<open>upgradeOrRegisterElement\<close>. A JavaScript method that mutates \<^verbatim>\<open>this\<close>
  becomes a function from the element to the element it leaves behind, paired with the
  way it ended: a thrown exception is a value of type \<open>error\<close>, and the element returned
  with it is the element as the exception left it (JavaScript rolls nothing back).
  A source name that ends in an underscore carries a prime here (\<open>applyLayout_'\<close> for
  \<^verbatim>\<open>applyLayout_\<close>, \<open>built_'\<close> for \<^verbatim>\<open>built_\<close>), since an identifier cannot end
  in one.
\<close>

subsection \<open>Values\<close>

text \<open>The members of the enum \<^verbatim>\<open>Layout\<close> that the file names. Each is a non-empty
  string in JavaScript, hence truthy.\<close>

datatype Layout =
  NODISPLAY | FIXED | FIXED_HEIGHT | RESPONSIVE | CONTAINER | FILL | FLEX_ITEM

text \<open>What can be thrown: a failed \<^verbatim>\<open>user.assert\<close> or \<^verbatim>\<open>dev.assert\<close> (with the message
  of the call, its placeholders left as written and its inner quotation marks dropped), the two
  \<^verbatim>\<open>new Error\<close> of the file, and whatever a hook of the hosted implementation throws.\<close>

datatype error =
    UserAssert string
  | DevAssert string
  | LayoutNotSupported Layout
  | LayoutNotSupportedFor Layout
  | HookError string

record ActionInvocation =
  target_tagName :: string
  inv_method :: string

text \<open>A child node, as far as the file looks at one: its tag and the names of its
  attributes (\<^verbatim>\<open>dom.lastChildElementByAttr\<close>).\<close>

record child =
  child_tag :: string
  child_attrs :: "string list"

record LayoutRectDef =
  box_top :: int
  box_width :: int

subsection \<open>The hosted implementation\<close>

text \<open>
  An implementation class is known to this file only through the hooks the element calls.
  A hook is modelled by how it ends: \<open>None\<close> when it returns, \<open>Some e\<close> when it throws
  \<open>e\<close>; a hook with a result returns \<open>Inr\<close> of it or throws \<open>Inl e\<close>. What a hook
  does to the element behind the element's back is outside the model.
  The field \<open>stub\<close> tells the class \<^verbatim>\<open>ElementStub\<close> from every other class
  (\<^verbatim>\<open>instanceof ElementStub\<close>, \<^verbatim>\<open>== ElementStub\<close>).
\<close>

record impl_class =
  stub :: bool
  on_createdCallback :: "error option"
  on_buildCallback :: "error option"
  isLayoutSupported :: "Layout \<Rightarrow> bool"
  on_firstAttachedCallback :: "error option"
  on_viewportCallback :: "bool \<Rightarrow> error option"
  on_createPlaceholderCallback :: "error + child option"
  on_executeAction :: "ActionInvocation \<Rightarrow> bool \<Rightarrow> error option"
  on_unlayoutCallback :: "error + bool"
  on_onLayoutMeasure :: "error option"
  on_detachedCallback :: "error option"
  on_pauseCallback :: "error option"
  on_resumeCallback :: "error option"
  on_layoutCallback :: "error option"
  on_firstLayoutCompleted :: "error option"

text \<open>An instance: its class and the three fields the element writes into it
  (\<open>None\<close>: as the constructor left the field).\<close>

record implementation =
  cls :: impl_class
  impl_layout_' :: "Layout option"
  impl_layoutWidth_' :: "int option"
  impl_inViewport_' :: "bool option"

definition new_impl :: "impl_class \<Rightarrow> implementation" where
  "new_impl C = \<lparr>cls = C, impl_layout_' = None, impl_layoutWidth_' = None,
     impl_inViewport_' = None\<rparr>"

subsection \<open>What the element does to the world around it\<close>

text \<open>Every hook call, dispatched event, reported error and call into the resource
  tracker is appended to the element's \<open>trace\<close>, in program order.\<close>

datatype event =
    Hook_createdCallback
  | Hook_buildCallback
  | Hook_firstAttachedCallback
  | Hook_viewportCallback bool
  | Hook_createPlaceholderCallback
  | Hook_executeAction ActionInvocation bool
  | Hook_unlayoutCallback
  | Hook_onLayoutMeasure
  | Hook_detachedCallback
  | Hook_pauseCallback
  | Hook_resumeCallback
  | Hook_layoutCallback
  | Hook_preconnectCallback bool
  | Hook_firstLayoutCompleted
  | Dispatched string
  | Reported error
  | RethrowAsync error ActionInvocation
  | Resources_add
  | Resources_remove
  | Resources_upgraded

text \<open>A callback handed to \<^verbatim>\<open>timer.delay\<close>, \<^verbatim>\<open>vsync.mutate\<close> or
  \<^verbatim>\<open>resources.deferMutate\<close> waits in \<open>pending\<close> until the scheduler runs it.\<close>

datatype task =
    Task_dequeueActions
  | Task_preconnect
  | Task_showLoading
  | Task_toggleLoading bool
  | Task_prepareLoading
  | Task_removeElement child

text \<open>The loading container and the loader element in it, by the two classes the file
  toggles: \<^verbatim>\<open>amp-hidden\<close> on the container, \<^verbatim>\<open>amp-active\<close> on the loader.\<close>

record loading_ui =
  amp_hidden :: bool
  amp_active :: bool

subsection \<open>The element\<close>

text \<open>
  The fields of \<^verbatim>\<open>createdCallback\<close> that the modelled methods read or write, under
  their names. \<open>None\<close> stands for \<^verbatim>\<open>undefined\<close> and \<^verbatim>\<open>null\<close> (the file tests these
  fields for truthiness only). \<^verbatim>\<open>layoutWidth_\<close> and \<^verbatim>\<open>layoutCount_\<close> are JavaScript
  numbers, integers here as in the specification's data model.
\<close>

record element =
  tagName :: string
  attrs :: "string \<rightharpoonup> string"
  classList :: "string list"
  style :: "string \<rightharpoonup> string"
  children :: "child list"
  built_' :: bool
  readyState :: string
  everAttached :: bool
  layout_' :: Layout
  layoutWidth_' :: int
  layoutCount_' :: int
  isInViewport_' :: bool
  sizerElement_' :: bool
  loadingDisabled_' :: "bool option"
  loadingState_' :: "bool option"
  loadingContainer_' :: "loading_ui option"
  implementation_' :: implementation
  actionQueue_' :: "ActionInvocation list option"
  isInTemplate_' :: "bool option"
  trace :: "event list"
  pending :: "task list"

subsection \<open>The collaborators imported from other files\<close>

text \<open>
  \<^verbatim>\<open>./layout\<close>, \<^verbatim>\<open>./dom\<close> and \<^verbatim>\<open>../src/loader\<close> are not part of the sources at hand.
  The functions the modelled code calls from them are parameters of the model, so every
  theorem holds for whatever they compute. \<open>None\<close> is the \<^verbatim>\<open>undefined\<close> a parser
  returns for a string it rejects. \<^verbatim>\<open>getNaturalDimensions\<close> and
  \<^verbatim>\<open>isInternalElement\<close> are handed the element and get its tag here.
  \<open>TEMPLATE_TAG_SUPPORTED\<close> is the constant the file computes from the browser at load
  time, \<open>loader_active\<close> whether the element made by \<^verbatim>\<open>createLoaderElement\<close> carries
  the class \<^verbatim>\<open>amp-active\<close>. \<^verbatim>\<open>user.assert\<close> and \<^verbatim>\<open>dev.assert\<close> of \<^verbatim>\<open>./log\<close> throw
  when their first argument is falsy and return it otherwise.
\<close>

record externals =
  parseLayout :: "string \<Rightarrow> Layout option"
  parseLength :: "string \<Rightarrow> string option"
  getLengthUnits :: "string \<Rightarrow> string"
  hasNaturalDimensions :: "string \<Rightarrow> bool"
  getNaturalDimensions :: "string \<Rightarrow> string \<times> string"
  getLayoutClass :: "Layout \<Rightarrow> string"
  isLayoutSizeDefined :: "Layout \<Rightarrow> bool"
  isLoadingAllowed :: "string \<Rightarrow> bool"
  isInternalElement :: "string \<Rightarrow> bool"
  TEMPLATE_TAG_SUPPORTED :: bool
  loader_active :: bool

subsection \<open>DOM helpers\<close>

definition truthy :: "string option \<Rightarrow> bool" where
  "truthy v = (case v of None \<Rightarrow> False | Some s \<Rightarrow> s \<noteq> [])"

definition getAttribute :: "element \<Rightarrow> string \<Rightarrow> string option" where
  "getAttribute this name = attrs this name"

definition hasAttribute :: "element \<Rightarrow> string \<Rightarrow> bool" where
  "hasAttribute this name = (attrs this name \<noteq> None)"

definition classList_add :: "string \<Rightarrow> element \<Rightarrow> element" where
  "classList_add c this =
     (if c \<in> set (classList this) then this
      else this\<lparr>classList := classList this @ [c]\<rparr>)"

definition classList_remove :: "string \<Rightarrow> element \<Rightarrow> element" where
  "classList_remove c this = this\<lparr>classList := removeAll c (classList this)\<rparr>"

definition style_set :: "string \<Rightarrow> string \<Rightarrow> element \<Rightarrow> element" where
  "style_set prop v this = this\<lparr>style := (style this)(prop \<mapsto> v)\<rparr>"

definition appendChild :: "child \<Rightarrow> element \<Rightarrow> element" where
  "appendChild c this = this\<lparr>children := children this @ [c]\<rparr>"

definition log :: "event \<Rightarrow> element \<Rightarrow> element" where
  "log ev this = this\<lparr>trace := trace this @ [ev]\<rparr>"

definition schedule :: "task \<Rightarrow> element \<Rightarrow> element" where
  "schedule t this = this\<lparr>pending := pending this @ [t]\<rparr>"

definition dispatchCustomEvent :: "string \<Rightarrow> element \<Rightarrow> element" where
  "dispatchCustomEvent name this = log (Dispatched name) this"

subsection \<open>applyLayout_\<close>

text \<open>
  The function resolves the layout from the five attributes, checks it with
  \<^verbatim>\<open>user.assert\<close> and then writes classes and styles; all assertions come before the
  first write. The model follows that order in two steps: \<open>effectiveLayout\<close> is the
  source down to the last assertion (the effective layout, width and height, or the
  assertion that failed), \<open>apply_ui\<close> is the part under the comment
  \<^verbatim>\<open>// Apply UI\<close>. The sizer's \<^verbatim>\<open>padding-top\<close> is a floating-point percentage and is
  left out: the model records only that a sizer was created and inserted first.
\<close>

definition apply_ui ::
  "externals \<Rightarrow> Layout \<Rightarrow> string option \<Rightarrow> string option \<Rightarrow> element \<Rightarrow> element" where
  "apply_ui ext layout width height element =
     (let e1 = classList_add (getLayoutClass ext layout) element;
          e2 = (if isLayoutSizeDefined ext layout
                then classList_add ''-amp-layout-size-defined'' e1 else e1)
      in if layout = NODISPLAY then style_set ''display'' ''none'' e2
         else if layout = FIXED then
           style_set ''height'' (the height) (style_set ''width'' (the width) e2)
         else if layout = FIXED_HEIGHT then style_set ''height'' (the height) e2
         else if layout = RESPONSIVE then
           e2\<lparr>children := \<lparr>child_tag = ''i-amp-sizer'', child_attrs = []\<rparr> # children e2,
              sizerElement_' := True\<rparr>
         else if layout = FILL then e2
         else if layout = CONTAINER then e2
         else
           (let e3 = (if truthy width then style_set ''width'' (the width) e2 else e2)
            in if truthy height then style_set ''height'' (the height) e3 else e3))"

definition effectiveLayout ::
  "externals \<Rightarrow> element \<Rightarrow> error + (Layout \<times> string option \<times> string option)" where
  "effectiveLayout ext element =
   (let layoutAttr = getAttribute element ''layout'';
        widthAttr = getAttribute element ''width'';
        heightAttr = getAttribute element ''height'';
        sizesAttr = getAttribute element ''sizes'';
        heightsAttr = getAttribute element ''heights''
    in
    case (if truthy layoutAttr then map_option Some (parseLayout ext (the layoutAttr))
          else Some None) of
      None \<Rightarrow> Inl (UserAssert ''Unknown layout: %s'')
    | Some inputLayout \<Rightarrow>
    (case (if truthy widthAttr \<and> widthAttr \<noteq> Some ''auto''
           then map_option Some (parseLength ext (the widthAttr))
           else Some widthAttr) of
      None \<Rightarrow> Inl (UserAssert ''Invalid width value: %s'')
    | Some inputWidth \<Rightarrow>
    (case (if truthy heightAttr then map_option Some (parseLength ext (the heightAttr))
           else Some None) of
      None \<Rightarrow> Inl (UserAssert ''Invalid height value: %s'')
    | Some inputHeight \<Rightarrow>
      (let natural =
             ((inputLayout = None \<or> inputLayout = Some FIXED
                 \<or> inputLayout = Some FIXED_HEIGHT)
              \<and> (\<not> truthy inputWidth \<or> \<not> truthy inputHeight)
              \<and> hasNaturalDimensions ext (tagName element));
           dimensions = getNaturalDimensions ext (tagName element);
           width =
             (if natural then
                (if truthy inputWidth \<or> inputLayout = Some FIXED_HEIGHT then inputWidth
                 else Some (fst dimensions))
              else inputWidth);
           height =
             (if natural then
                (if truthy inputHeight then inputHeight else Some (snd dimensions))
              else inputHeight);
           layout =
             (case inputLayout of
                Some l \<Rightarrow> l
              | None \<Rightarrow>
                  if \<not> truthy width \<and> \<not> truthy height then CONTAINER
                  else if truthy height \<and> (\<not> truthy width \<or> width = Some ''auto'')
                    then FIXED_HEIGHT
                  else if truthy height \<and> truthy width
                          \<and> (truthy sizesAttr \<or> truthy heightsAttr)
                    then RESPONSIVE
                  else FIXED)
       in
       if (layout = FIXED \<or> layout = FIXED_HEIGHT \<or> layout = RESPONSIVE)
          \<and> \<not> truthy height
         then Inl (UserAssert ''Expected height to be available: %s'')
       else if layout = FIXED_HEIGHT \<and> \<not> (\<not> truthy width \<or> width = Some ''auto'')
         then Inl (UserAssert
           ''Expected width to be either absent or equal auto for fixed-height layout: %s'')
       else if (layout = FIXED \<or> layout = RESPONSIVE)
               \<and> \<not> (truthy width \<and> width \<noteq> Some ''auto'')
         then Inl (UserAssert
           ''Expected width to be available and not equal to auto: %s'')
       else if layout = RESPONSIVE
               \<and> getLengthUnits ext (the width) \<noteq> getLengthUnits ext (the height)
         then Inl (UserAssert
           ''Length units should be the same for width and height: %s, %s'')
       else if layout \<noteq> RESPONSIVE \<and> heightsAttr \<noteq> None
         then Inl (UserAssert
           ''Unexpected heights attribute for none-responsive layout'')
       else Inr (layout, width, height)))))"

definition applyLayout_' :: "externals \<Rightarrow> element \<Rightarrow> error + (Layout \<times> element)" where
  "applyLayout_' ext element =
     (case effectiveLayout ext element of
        Inl e \<Rightarrow> Inl e
      | Inr (layout, width, height) \<Rightarrow>
          Inr (layout, apply_ui ext layout width height element))"

text \<open>The layout \<^verbatim>\<open>applyLayout_\<close> returns, or the assertion it fails.\<close>

definition resolvedLayout :: "externals \<Rightarrow> element \<Rightarrow> error + Layout" where
  "resolvedLayout ext element =
     (case applyLayout_' ext element of Inl e \<Rightarrow> Inl e | Inr r \<Rightarrow> Inr (fst r))"

subsection \<open>Creation and upgrade\<close>

definition isInTemplate :: "element \<Rightarrow> bool" where
  "isInTemplate this = (isInTemplate_' this = Some True)"

definition isUpgraded :: "element \<Rightarrow> bool" where
  "isUpgraded this = (\<not> stub (cls (implementation_' this)))"

definition isBuilt :: "element \<Rightarrow> bool" where
  "isBuilt this = built_' this"

text \<open>\<^verbatim>\<open>dev.assert(!this.isInTemplate_, ...)\<close>: the error it throws, if any.\<close>

definition assertNotTemplate_' :: "element \<Rightarrow> error option" where
  "assertNotTemplate_' this =
     (if isInTemplate this then Some (DevAssert ''Must never be called in template'')
      else None)"

text \<open>
  \<^verbatim>\<open>createdCallback\<close> runs on a fresh DOM element, given here by its tag, attributes,
  classes and children; \<open>Ctor\<close> is \<^verbatim>\<open>opt_implementationClass || knownElements[name]\<close>.
  The fields are assigned in the order of the source, so when the implementation's
  \<^verbatim>\<open>createdCallback\<close> throws, \<^verbatim>\<open>actionQueue_\<close> and \<^verbatim>\<open>isInTemplate_\<close> have not been
  assigned and stay \<^verbatim>\<open>undefined\<close>.
\<close>

definition createdCallback ::
  "impl_class \<Rightarrow> string \<Rightarrow> (string \<rightharpoonup> string) \<Rightarrow> string list \<Rightarrow> child list
     \<Rightarrow> error option \<times> element" where
  "createdCallback Ctor tag as cs ch =
     (let this0 =
            \<lparr>tagName = tag, attrs = as, classList = cs, style = Map.empty, children = ch,
             built_' = False, readyState = ''loading'', everAttached = False,
             layout_' = NODISPLAY, layoutWidth_' = - 1, layoutCount_' = 0,
             isInViewport_' = False, sizerElement_' = False, loadingDisabled_' = None,
             loadingState_' = None, loadingContainer_' = None,
             implementation_' = new_impl Ctor, actionQueue_' = None, isInTemplate_' = None,
             trace = [], pending = []\<rparr>;
          this1 = classList_add ''amp-notbuilt''
                    (classList_add ''-amp-notbuilt'' (classList_add ''-amp-element'' this0));
          this2 = log Hook_createdCallback this1
      in case on_createdCallback Ctor of
           Some e \<Rightarrow> (Some e, this2)
         | None \<Rightarrow> (None, this2\<lparr>actionQueue_' := Some [], isInTemplate_' := None\<rparr>))"

definition upgrade :: "impl_class \<Rightarrow> element \<Rightarrow> error option \<times> element" where
  "upgrade newImplClass this =
     (if isInTemplate this then (None, this)
      else
        (let this1 = classList_remove ''-amp-unresolved''
                       (classList_remove ''amp-unresolved''
                          (this\<lparr>implementation_' := new_impl newImplClass\<rparr>));
             this2 = log Hook_createdCallback this1
         in case on_createdCallback newImplClass of
              Some e \<Rightarrow> (Some e, this2)
            | None \<Rightarrow>
                if layout_' this2 \<noteq> NODISPLAY
                   \<and> \<not> isLayoutSupported newImplClass (layout_' this2)
                then (Some (LayoutNotSupported (layout_' this2)), this2)
                else
                  (let this3 = this2\<lparr>implementation_' := (implementation_' this2)
                         \<lparr>impl_layout_' := Some (layout_' this2),
                          impl_layoutWidth_' := Some (layoutWidth_' this2)\<rparr>\<rparr>
                   in if everAttached this3 then
                        (let this4 = log Hook_firstAttachedCallback this3
                         in case on_firstAttachedCallback newImplClass of
                              Some e \<Rightarrow> (Some e, this4)
                            | None \<Rightarrow>
                                (None, log Resources_upgraded
                                         (dispatchCustomEvent ''amp:attached'' this4)))
                      else (None, this3))))"

subsection \<open>Build and the action queue\<close>

definition updateInViewport_' :: "bool \<Rightarrow> element \<Rightarrow> error option \<times> element" where
  "updateInViewport_' inViewport this =
     (let this1 = this\<lparr>implementation_' := (implementation_' this)
                    \<lparr>impl_inViewport_' := Some inViewport\<rparr>\<rparr>
      in (on_viewportCallback (cls (implementation_' this1)) inViewport,
          log (Hook_viewportCallback inViewport) this1))"

definition getPlaceholder :: "element \<Rightarrow> child option" where
  "getPlaceholder this =
     (case filter (\<lambda>c. ''placeholder'' \<in> set (child_attrs c)) (children this) of
        [] \<Rightarrow> None
      | c # cs \<Rightarrow> Some (last (c # cs)))"

text \<open>\<^verbatim>\<open>preconnect(false)\<close> only hands a callback to \<^verbatim>\<open>timer.delay\<close>.\<close>

definition preconnect :: "bool \<Rightarrow> element \<Rightarrow> error option \<times> element" where
  "preconnect onLayout this =
     (if onLayout then (None, log (Hook_preconnectCallback onLayout) this)
      else (None, schedule Task_preconnect this))"

definition build :: "element \<Rightarrow> error option \<times> element" where
  "build this =
     (case assertNotTemplate_' this of
        Some e \<Rightarrow> (Some e, this)
      | None \<Rightarrow>
        if isBuilt this then (None, this)
        else if \<not> isUpgraded this
          then (Some (DevAssert ''Cannot build unupgraded element''), this)
        else
          (let this1 = log Hook_buildCallback this
           in case on_buildCallback (cls (implementation_' this1)) of
                Some e \<Rightarrow> (Some e, log (Reported e) this1)
              | None \<Rightarrow>
                (let this2 = snd (preconnect False this1);
                     this3 = classList_remove ''amp-notbuilt''
                               (classList_remove ''-amp-notbuilt''
                                  (this2\<lparr>built_' := True\<rparr>))
                 in case (if built_' this3 \<and> isInViewport_' this3
                          then updateInViewport_' True this3 else (None, this3)) of
                      (Some e, this4) \<Rightarrow> (Some e, this4)
                    | (None, this4) \<Rightarrow>
                      (let this5 =
                             (case actionQueue_' this4 of
                                None \<Rightarrow> this4
                              | Some q \<Rightarrow>
                                  if length q > 0 then schedule Task_dequeueActions this4
                                  else this4\<lparr>actionQueue_' := None\<rparr>)
                       in if getPlaceholder this5 = None then
                            (let this6 = log Hook_createPlaceholderCallback this5
                             in case on_createPlaceholderCallback
                                       (cls (implementation_' this6)) of
                                  Inl e \<Rightarrow> (Some e, this6)
                                | Inr None \<Rightarrow> (None, this6)
                                | Inr (Some placeholder) \<Rightarrow>
                                    (None, appendChild placeholder this6))
                          else (None, this5)))))"

text \<open>\<^verbatim>\<open>executionAction_\<close> consumes the exception of \<^verbatim>\<open>executeAction\<close> and hands it
  to \<^verbatim>\<open>rethrowAsync\<close>.\<close>

definition executionAction_' :: "ActionInvocation \<Rightarrow> bool \<Rightarrow> element \<Rightarrow> element" where
  "executionAction_' invocation deferred this =
     (let this1 = log (Hook_executeAction invocation deferred) this
      in case on_executeAction (cls (implementation_' this1)) invocation deferred of
           None \<Rightarrow> this1
         | Some e \<Rightarrow> log (RethrowAsync e invocation) this1)"

definition enqueAction :: "ActionInvocation \<Rightarrow> element \<Rightarrow> error option \<times> element" where
  "enqueAction invocation this =
     (case assertNotTemplate_' this of
        Some e \<Rightarrow> (Some e, this)
      | None \<Rightarrow>
        if \<not> isBuilt this then
          (case actionQueue_' this of
             None \<Rightarrow> (Some (DevAssert ''Assertion failed''), this)
           | Some q \<Rightarrow> (None, this\<lparr>actionQueue_' := Some (q @ [invocation])\<rparr>))
        else (None, executionAction_' invocation False this))"

definition dequeueActions_' :: "element \<Rightarrow> element" where
  "dequeueActions_' this =
     (case actionQueue_' this of
        None \<Rightarrow> this
      | Some actionQueue \<Rightarrow>
          foldl (\<lambda>s invocation. executionAction_' invocation True s)
            (this\<lparr>actionQueue_' := None\<rparr>) actionQueue)"

subsection \<open>Attachment\<close>

definition firstAttachedCallback_' :: "externals \<Rightarrow> element \<Rightarrow> error option \<times> element" where
  "firstAttachedCallback_' ext this =
     (let this1 = (if \<not> isUpgraded this
                   then classList_add ''-amp-unresolved'' (classList_add ''amp-unresolved'' this)
                   else this)
      in case applyLayout_' ext this1 of
           Inl e \<Rightarrow> (Some e, log (Reported e) this1)
         | Inr (layout, this2) \<Rightarrow>
           (let this3 = this2\<lparr>layout_' := layout\<rparr>
            in if layout_' this3 \<noteq> NODISPLAY
                  \<and> \<not> isLayoutSupported (cls (implementation_' this3)) (layout_' this3)
               then (Some (LayoutNotSupportedFor (layout_' this3)),
                     log (Reported (LayoutNotSupportedFor (layout_' this3))) this3)
               else
                 (let this4 = this3\<lparr>implementation_' := (implementation_' this3)
                        \<lparr>impl_layout_' := Some (layout_' this3)\<rparr>\<rparr>;
                      this5 = log Hook_firstAttachedCallback this4
                  in case on_firstAttachedCallback (cls (implementation_' this5)) of
                       Some e \<Rightarrow> (Some e, log (Reported e) this5)
                     | None \<Rightarrow>
                         (None,
                          if \<not> isUpgraded this5 then dispatchCustomEvent ''amp:stubbed'' this5
                          else dispatchCustomEvent ''amp:attached'' this5))))"

text \<open>\<open>closestTemplate\<close> is what \<^verbatim>\<open>!!dom.closestByTag(this, 'template')\<close> gives at
  the time of the call.\<close>

definition attachedCallback :: "externals \<Rightarrow> bool \<Rightarrow> element \<Rightarrow> error option \<times> element" where
  "attachedCallback ext closestTemplate this =
     (let this1 = (if \<not> TEMPLATE_TAG_SUPPORTED ext
                   then this\<lparr>isInTemplate_' := Some closestTemplate\<rparr> else this)
      in if isInTemplate this1 then (None, this1)
         else
           (let this2 =
                  (if \<not> everAttached this1 then
                     (case firstAttachedCallback_' ext (this1\<lparr>everAttached := True\<rparr>) of
                        (Some e, t) \<Rightarrow> log (Reported e) t
                      | (None, t) \<Rightarrow> t)
                   else this1)
            in (None, log Resources_add this2)))"

definition detachedCallback :: "element \<Rightarrow> error option \<times> element" where
  "detachedCallback this =
     (if isInTemplate this then (None, this)
      else (on_detachedCallback (cls (implementation_' this)),
            log Hook_detachedCallback (log Resources_remove this)))"

subsection \<open>The loading indicator\<close>

definition MIN_WIDTH_FOR_LOADING_' :: int where
  "MIN_WIDTH_FOR_LOADING_' = 100"

definition PREPARE_LOADING_THRESHOLD_' :: int where
  "PREPARE_LOADING_THRESHOLD_' = 1000"

definition isInternalOrServiceNode :: "externals \<Rightarrow> element \<Rightarrow> bool" where
  "isInternalOrServiceNode ext node =
     (if isInternalElement ext (tagName node) then True
      else if tagName node \<noteq> []
              \<and> (hasAttribute node ''placeholder'' \<or> hasAttribute node ''fallback''
                 \<or> hasAttribute node ''overflow'')
        then True
      else False)"

text \<open>\<^verbatim>\<open>isLoadingEnabled_\<close> caches the \<^verbatim>\<open>noloading\<close> attribute on its first call, so it
  returns the element with its answer.\<close>

definition isLoadingEnabled_' :: "externals \<Rightarrow> element \<Rightarrow> bool \<times> element" where
  "isLoadingEnabled_' ext this =
     (let this1 = (if loadingDisabled_' this = None
                   then this\<lparr>loadingDisabled_' := Some (hasAttribute this ''noloading'')\<rparr>
                   else this)
      in if loadingDisabled_' this1 = Some True \<or> \<not> isLoadingAllowed ext (tagName this1)
            \<or> layoutWidth_' this1 < MIN_WIDTH_FOR_LOADING_'
            \<or> layoutCount_' this1 > 0
            \<or> isInternalOrServiceNode ext this1
            \<or> \<not> isLayoutSizeDefined ext (layout_' this1)
         then (False, this1)
         else (True, this1))"

definition loading_container_child :: child where
  "loading_container_child = \<lparr>child_tag = ''div'', child_attrs = []\<rparr>"

definition prepareLoading_' :: "externals \<Rightarrow> element \<Rightarrow> element" where
  "prepareLoading_' ext this =
     (if loadingContainer_' this = None then
        (appendChild loading_container_child this)
          \<lparr>loadingContainer_' := Some \<lparr>amp_hidden = True, amp_active = loader_active ext\<rparr>\<rparr>
      else this)"

text \<open>\<^verbatim>\<open>toggleLoading_\<close>, up to the callback it hands to \<^verbatim>\<open>vsync.mutate\<close>.\<close>

definition toggleLoading_' ::
  "externals \<Rightarrow> bool \<Rightarrow> bool \<Rightarrow> element \<Rightarrow> error option \<times> element" where
  "toggleLoading_' ext state opt_cleanup this =
     (case assertNotTemplate_' this of
        Some e \<Rightarrow> (Some e, this)
      | None \<Rightarrow>
        (let this1 = this\<lparr>loadingState_' := Some state\<rparr>
         in if \<not> state \<and> loadingContainer_' this1 = None then (None, this1)
            else if state \<and> \<not> fst (isLoadingEnabled_' ext this1)
              then (None, (snd (isLoadingEnabled_' ext this1))\<lparr>loadingState_' := Some False\<rparr>)
            else (None, schedule (Task_toggleLoading opt_cleanup)
                          (if state then snd (isLoadingEnabled_' ext this1) else this1))))"

text \<open>
  The callback of \<^verbatim>\<open>toggleLoading_\<close>, run by vsync. \<^verbatim>\<open>classList.toggle(c, force)\<close>
  sets the class to \<open>force\<close>; with \<open>force\<close> \<^verbatim>\<open>undefined\<close> it flips the class, which is
  what happens to \<^verbatim>\<open>amp-active\<close> when \<^verbatim>\<open>loadingState_\<close> was never assigned.
\<close>

definition toggleLoading_mutate :: "externals \<Rightarrow> bool \<Rightarrow> element \<Rightarrow> element" where
  "toggleLoading_mutate ext opt_cleanup this =
     (let recheck = (loadingState_' this = Some True);
          this1 = (if recheck then snd (isLoadingEnabled_' ext this) else this);
          state = (if recheck \<and> \<not> fst (isLoadingEnabled_' ext this) then Some False
                   else loadingState_' this);
          this2 = (if state = Some True then prepareLoading_' ext this1 else this1)
      in case loadingContainer_' this2 of
           None \<Rightarrow> this2
         | Some c \<Rightarrow>
           (let this3 = this2\<lparr>loadingContainer_' := Some
                  \<lparr>amp_hidden = (state \<noteq> Some True),
                   amp_active = (case state of None \<Rightarrow> \<not> amp_active c | Some b \<Rightarrow> b)\<rparr>\<rparr>
            in if state \<noteq> Some True \<and> opt_cleanup
               then schedule (Task_removeElement loading_container_child)
                      (this3\<lparr>loadingContainer_' := None\<rparr>)
               else this3))"

text \<open>The indicator shows when its container is there without the class
  \<^verbatim>\<open>amp-hidden\<close>.\<close>

definition loadingShown :: "element \<Rightarrow> bool" where
  "loadingShown this =
     (case loadingContainer_' this of None \<Rightarrow> False | Some c \<Rightarrow> \<not> amp_hidden c)"

subsection \<open>Viewport, layout box and layout\<close>

definition viewportCallback :: "externals \<Rightarrow> bool \<Rightarrow> element \<Rightarrow> error option \<times> element" where
  "viewportCallback ext inViewport this =
     (case assertNotTemplate_' this of
        Some e \<Rightarrow> (Some e, this)
      | None \<Rightarrow>
        (let this1 = this\<lparr>isInViewport_' := inViewport\<rparr>
         in case (if layoutCount_' this1 = 0 then
                    (if \<not> inViewport then toggleLoading_' ext False False this1
                     else (None, schedule Task_showLoading this1))
                  else (None, this1)) of
              (Some e, this2) \<Rightarrow> (Some e, this2)
            | (None, this2) \<Rightarrow>
                if isUpgraded this2 \<and> isBuilt this2
                then updateInViewport_' inViewport this2
                else (None, this2)))"

text \<open>The callback \<^verbatim>\<open>viewportCallback\<close> hands to \<^verbatim>\<open>timer.delay(..., 100)\<close>.\<close>

definition showLoading_delayed :: "externals \<Rightarrow> element \<Rightarrow> error option \<times> element" where
  "showLoading_delayed ext this =
     (if layoutCount_' this = 0 \<and> isInViewport_' this
      then toggleLoading_' ext True False this
      else (None, this))"

definition updateLayoutBox ::
  "externals \<Rightarrow> LayoutRectDef \<Rightarrow> element \<Rightarrow> error option \<times> element" where
  "updateLayoutBox ext layoutBox this =
     (let this1 = this\<lparr>layoutWidth_' := box_width layoutBox\<rparr>;
          this2 = (if isUpgraded this1
                   then this1\<lparr>implementation_' := (implementation_' this1)
                          \<lparr>impl_layoutWidth_' := Some (layoutWidth_' this1)\<rparr>\<rparr>
                   else this1);
          this3 = log Hook_onLayoutMeasure this2
      in case on_onLayoutMeasure (cls (implementation_' this3)) of
           Some e \<Rightarrow> (Some e, this3)
         | None \<Rightarrow>
           (let this4 = snd (isLoadingEnabled_' ext this3)
            in if fst (isLoadingEnabled_' ext this3) then
                 (if isInViewport_' this4 then toggleLoading_' ext True False this4
                  else if box_top layoutBox < PREPARE_LOADING_THRESHOLD_'
                          \<and> box_top layoutBox \<ge> 0
                    then (None, schedule Task_prepareLoading this4)
                  else (None, this4))
               else (None, this4)))"

text \<open>
  \<^verbatim>\<open>layoutCallback\<close> returns a promise. Its synchronous part is \<open>layoutCallback\<close>; the two
  continuations of \<^verbatim>\<open>promise.then\<close> are \<open>layoutCallback_resolved\<close> and
  \<open>layoutCallback_rejected\<close>, the latter rethrowing the reason.
\<close>

definition layoutCallback :: "element \<Rightarrow> error option \<times> element" where
  "layoutCallback this =
     (case assertNotTemplate_' this of
        Some e \<Rightarrow> (Some e, this)
      | None \<Rightarrow>
        if \<not> (isUpgraded this \<and> isBuilt this)
        then (Some (DevAssert ''Must be upgraded and built to receive viewport events''), this)
        else
          (let this1 = log Hook_layoutCallback (dispatchCustomEvent ''amp:load:start'' this)
           in case on_layoutCallback (cls (implementation_' this1)) of
                Some e \<Rightarrow> (Some e, this1)
              | None \<Rightarrow>
                  (None, classList_add ''-amp-layout'' (snd (preconnect True this1)))))"

definition layoutCallback_resolved :: "externals \<Rightarrow> element \<Rightarrow> error option \<times> element" where
  "layoutCallback_resolved ext this =
     (let this1 = this\<lparr>readyState := ''complete'', layoutCount_' := layoutCount_' this + 1\<rparr>
      in case toggleLoading_' ext False True this1 of
           (Some e, this2) \<Rightarrow> (Some e, this2)
         | (None, this2) \<Rightarrow>
             if layoutCount_' this2 = 1
             then (on_firstLayoutCompleted (cls (implementation_' this2)),
                   log Hook_firstLayoutCompleted this2)
             else (None, this2))"

definition layoutCallback_rejected ::
  "externals \<Rightarrow> error \<Rightarrow> element \<Rightarrow> error option \<times> element" where
  "layoutCallback_rejected ext reason this =
     (case toggleLoading_' ext False True this of
        (Some e, this1) \<Rightarrow> (Some e, this1)
      | (None, this1) \<Rightarrow> (Some reason, this1))"

definition pauseCallback :: "element \<Rightarrow> error option \<times> element" where
  "pauseCallback this =
     (case assertNotTemplate_' this of
        Some e \<Rightarrow> (Some e, this)
      | None \<Rightarrow>
        if \<not> isBuilt this \<or> \<not> isUpgraded this then (None, this)
        else (on_pauseCallback (cls (implementation_' this)), log Hook_pauseCallback this))"

definition resumeCallback :: "element \<Rightarrow> error option \<times> element" where
  "resumeCallback this =
     (case assertNotTemplate_' this of
        Some e \<Rightarrow> (Some e, this)
      | None \<Rightarrow>
        if \<not> isBuilt this \<or> \<not> isUpgraded this then (None, this)
        else (on_resumeCallback (cls (implementation_' this)), log Hook_resumeCallback this))"

definition unlayoutCallback :: "element \<Rightarrow> (error + bool) \<times> element" where
  "unlayoutCallback this =
     (case assertNotTemplate_' this of
        Some e \<Rightarrow> (Inl e, this)
      | None \<Rightarrow>
        if \<not> isBuilt this \<or> \<not> isUpgraded this then (Inr False, this)
        else
          (let this1 = log Hook_unlayoutCallback this
           in case on_unlayoutCallback (cls (implementation_' this1)) of
                Inl e \<Rightarrow> (Inl e, this1)
              | Inr isReLayoutNeeded \<Rightarrow>
                  (Inr isReLayoutNeeded,
                   if isReLayoutNeeded then this1\<lparr>layoutCount_' := 0\<rparr> else this1)))"

subsection \<open>Deferred callbacks\<close>

text \<open>What each pending callback does when the scheduler runs it: the bound
  \<^verbatim>\<open>dequeueActions_\<close>, the delayed \<^verbatim>\<open>preconnectCallback\<close>, the debounced show of
  \<^verbatim>\<open>viewportCallback\<close>, the two vsync callbacks and the deferred removal of the loading
  container.\<close>

definition run_task :: "externals \<Rightarrow> task \<Rightarrow> element \<Rightarrow> error option \<times> element" where
  "run_task ext t this =
     (case t of
        Task_dequeueActions \<Rightarrow> (None, dequeueActions_' this)
      | Task_preconnect \<Rightarrow> (None, log (Hook_preconnectCallback False) this)
      | Task_showLoading \<Rightarrow> showLoading_delayed ext this
      | Task_toggleLoading opt_cleanup \<Rightarrow> (None, toggleLoading_mutate ext opt_cleanup this)
      | Task_prepareLoading \<Rightarrow> (None, prepareLoading_' ext this)
      | Task_removeElement c \<Rightarrow> (None, this\<lparr>children := remove1 c (children this)\<rparr>))"

text \<open>The scheduler takes the \<open>n\<close>-th pending callback off the list and runs it.\<close>

definition fire :: "externals \<Rightarrow> nat \<Rightarrow> element \<Rightarrow> error option \<times> element" where
  "fire ext n this =
     (if n < length (pending this)
      then run_task ext (pending this ! n)
             (this\<lparr>pending := take n (pending this) @ drop (Suc n) (pending this)\<rparr>)
      else (None, this))"

subsection \<open>The life of an element\<close>

text \<open>The calls the page, the resource tracker and the scheduler make on an element
  after its creation, and the element each leaves behind, whether it threw or not.\<close>

datatype call =
    Call_upgrade impl_class
  | Call_build
  | Call_attachedCallback bool
  | Call_detachedCallback
  | Call_updateLayoutBox LayoutRectDef
  | Call_viewportCallback bool
  | Call_layoutCallback
  | Call_layoutResolved
  | Call_layoutRejected error
  | Call_pauseCallback
  | Call_resumeCallback
  | Call_unlayoutCallback
  | Call_enqueAction ActionInvocation
  | Call_fire nat

definition perform :: "externals \<Rightarrow> call \<Rightarrow> element \<Rightarrow> element" where
  "perform ext c this =
     (case c of
        Call_upgrade newImplClass \<Rightarrow> snd (upgrade newImplClass this)
      | Call_build \<Rightarrow> snd (build this)
      | Call_attachedCallback closestTemplate \<Rightarrow> snd (attachedCallback ext closestTemplate this)
      | Call_detachedCallback \<Rightarrow> snd (detachedCallback this)
      | Call_updateLayoutBox layoutBox \<Rightarrow> snd (updateLayoutBox ext layoutBox this)
      | Call_viewportCallback inViewport \<Rightarrow> snd (viewportCallback ext inViewport this)
      | Call_layoutCallback \<Rightarrow> snd (layoutCallback this)
      | Call_layoutResolved \<Rightarrow> snd (layoutCallback_resolved ext this)
      | Call_layoutRejected reason \<Rightarrow> snd (layoutCallback_rejected ext reason this)
      | Call_pauseCallback \<Rightarrow> snd (pauseCallback this)
      | Call_resumeCallback \<Rightarrow> snd (resumeCallback this)
      | Call_unlayoutCallback \<Rightarrow> snd (unlayoutCallback this)
      | Call_enqueAction invocation \<Rightarrow> snd (enqueAction invocation this)
      | Call_fire n \<Rightarrow> snd (fire ext n this))"

text \<open>An element is \<open>reachable\<close> when a \<^verbatim>\<open>createdCallback\<close> that returned made it and
  calls brought it to where it is (the specification's state Created and what follows
  it).\<close>

inductive reachable :: "externals \<Rightarrow> element \<Rightarrow> bool" for ext :: externals where
  created: "createdCallback Ctor tag as cs ch = (None, this) \<Longrightarrow> reachable ext this"
| performed: "reachable ext this \<Longrightarrow> reachable ext (perform ext c this)"

text \<open>The calls that touch the loading indicator.\<close>

datatype loading_call =
    Loading_viewportCallback bool
  | Loading_updateLayoutBox LayoutRectDef
  | Loading_toggleLoading bool bool
  | Loading_showLoading_delayed
  | Loading_toggleLoading_mutate bool
  | Loading_prepareLoading

definition perform_loading :: "externals \<Rightarrow> loading_call \<Rightarrow> element \<Rightarrow> element" where
  "perform_loading ext c this =
     (case c of
        Loading_viewportCallback inViewport \<Rightarrow> snd (viewportCallback ext inViewport this)
      | Loading_updateLayoutBox layoutBox \<Rightarrow> snd (updateLayoutBox ext layoutBox this)
      | Loading_toggleLoading state opt_cleanup \<Rightarrow>
          snd (toggleLoading_' ext state opt_cleanup this)
      | Loading_showLoading_delayed \<Rightarrow> snd (showLoading_delayed ext this)
      | Loading_toggleLoading_mutate opt_cleanup \<Rightarrow> toggleLoading_mutate ext opt_cleanup this
      | Loading_prepareLoading \<Rightarrow> prepareLoading_' ext this)"

subsection \<open>The registry\<close>

text \<open>
  The module state: \<^verbatim>\<open>knownElements\<close>, the array \<^verbatim>\<open>stubbedElements\<close> of
  \<^verbatim>\<open>./element-stub\<close> (each stub by the element it holds), the names handed to
  \<^verbatim>\<open>document.registerElement\<close>, and the errors that \<^verbatim>\<open>upgradeOrRegisterElement\<close> itself
  reports.
\<close>

record registry =
  knownElements :: "string \<rightharpoonup> impl_class"
  stubbedElements :: "element list"
  registered :: "string list"
  reported :: "error list"

definition lower_char :: "char \<Rightarrow> char" where
  "lower_char c =
     (if 65 \<le> (of_char c :: nat) \<and> (of_char c :: nat) \<le> 90
      then (case c of Char b0 b1 b2 b3 b4 b5 b6 b7 \<Rightarrow> Char b0 b1 b2 b3 b4 True b6 b7)
      else c)"

definition toLowerCase :: "string \<Rightarrow> string" where
  "toLowerCase s = map lower_char s"

definition registerElement :: "string \<Rightarrow> impl_class \<Rightarrow> registry \<Rightarrow> registry" where
  "registerElement name implementationClass w =
     w\<lparr>knownElements := (knownElements w)(name \<mapsto> implementationClass),
       registered := registered w @ [name]\<rparr>"

text \<open>The loop over \<^verbatim>\<open>stubbedElements\<close>: the elements as it leaves them, and the errors
  it reports, in order.\<close>

fun upgrade_stubs :: "string \<Rightarrow> impl_class \<Rightarrow> element list \<Rightarrow> element list \<times> error list" where
  "upgrade_stubs name toClass [] = ([], [])"
| "upgrade_stubs name toClass (element # rest) =
     (let (element', errs) =
            (if toLowerCase (tagName element) = name then
               (case upgrade toClass element of
                  (None, t) \<Rightarrow> (t, [])
                | (Some e, t) \<Rightarrow> (t, [e]))
             else (element, []));
          (rest', errs') = upgrade_stubs name toClass rest
      in (element' # rest', errs @ errs'))"

definition upgradeOrRegisterElement ::
  "string \<Rightarrow> impl_class \<Rightarrow> registry \<Rightarrow> error option \<times> registry" where
  "upgradeOrRegisterElement name toClass w =
     (case knownElements w name of
        None \<Rightarrow> (None, registerElement name toClass w)
      | Some known \<Rightarrow>
          if \<not> stub known
          then (Some (UserAssert
                  (''%s is already registered. The script tag for ''
                   @ ''%s is likely included twice in the page.'')), w)
          else
            (let w1 = w\<lparr>knownElements := (knownElements w)(name \<mapsto> toClass)\<rparr>;
                 (els, errs) = upgrade_stubs name toClass (stubbedElements w1)
             in (None, w1\<lparr>stubbedElements := els, reported := reported w1 @ errs\<rparr>)))"

subsection \<open>Sample collaborators, classes and elements\<close>

text \<open>
  One instance of the absent collaborators and a few implementation classes, to run the
  model on concrete elements. Only the closed example theorems below use them.
  The sample \<open>parseLength\<close> accepts a non-empty string of digits and appends \<open>px\<close>;
  the sample tag with natural dimensions is \<open>AMP-PIXEL\<close>.
\<close>

definition digit :: "char \<Rightarrow> bool" where
  "digit c = (c \<in> set ''0123456789'')"

definition sample_ext :: externals where
  "sample_ext =
     \<lparr>parseLayout = (\<lambda>s. if s = ''fixed'' then Some FIXED
                         else if s = ''responsive'' then Some RESPONSIVE
                         else if s = ''container'' then Some CONTAINER
                         else None),
      parseLength = (\<lambda>s. if s \<noteq> [] \<and> list_all digit s then Some (s @ ''px'') else None),
      getLengthUnits = (\<lambda>s. filter (\<lambda>c. \<not> digit c) s),
      hasNaturalDimensions = (\<lambda>t. t = ''AMP-PIXEL''),
      getNaturalDimensions = (\<lambda>t. (''1px'', ''1px'')),
      getLayoutClass = (\<lambda>l. ''-amp-layout''),
      isLayoutSizeDefined = (\<lambda>l. l \<noteq> NODISPLAY \<and> l \<noteq> CONTAINER),
      isLoadingAllowed = (\<lambda>t. True),
      isInternalElement = (\<lambda>t. False),
      TEMPLATE_TAG_SUPPORTED = True,
      loader_active = False\<rparr>"

definition sample_class :: impl_class where
  "sample_class =
     \<lparr>stub = False, on_createdCallback = None, on_buildCallback = None,
      isLayoutSupported = (\<lambda>l. True), on_firstAttachedCallback = None,
      on_viewportCallback = (\<lambda>b. None), on_createPlaceholderCallback = Inr None,
      on_executeAction = (\<lambda>i d. None), on_unlayoutCallback = Inr True,
      on_onLayoutMeasure = None, on_detachedCallback = None, on_pauseCallback = None,
      on_resumeCallback = None, on_layoutCallback = None,
      on_firstLayoutCompleted = None\<rparr>"

definition sample_stub :: impl_class where
  "sample_stub = sample_class\<lparr>stub := True\<rparr>"

text \<open>The element a \<^verbatim>\<open>createdCallback\<close> leaves behind for a tag with the given
  attributes and no classes or children.\<close>

definition sample_element :: "impl_class \<Rightarrow> string \<Rightarrow> (string \<rightharpoonup> string) \<Rightarrow> element" where
  "sample_element Ctor tag as = snd (createdCallback Ctor tag as [] [])"

text \<open>\<open>parses_to ext s v\<close>: the collaborator's \<^verbatim>\<open>parseLength\<close> accepts the attribute
  value \<open>s\<close> and returns the non-empty length \<open>v\<close> for it.\<close>

definition parses_to :: "externals \<Rightarrow> string \<Rightarrow> string \<Rightarrow> bool" where
  "parses_to ext s v = (parseLength ext s = Some v \<and> v \<noteq> [])"

definition failing_build_class :: impl_class where
  "failing_build_class = sample_class\<lparr>on_buildCallback := Some (HookError ''build failed'')\<rparr>"

subsection \<open>Vocabulary of the action queue properties\<close>

text \<open>\<open>enqueAll\<close> calls \<^verbatim>\<open>enqueAction\<close> for each invocation in turn. \<open>drain_events\<close> is
  what a drain of the given invocations should leave in the trace: for each invocation,
  in order, the call of \<^verbatim>\<open>executeAction\<close> with the deferred flag, followed by a
  \<^verbatim>\<open>rethrowAsync\<close> when that call throws.\<close>

definition is_executeAction :: "event \<Rightarrow> bool" where
  "is_executeAction ev = (case ev of Hook_executeAction i d \<Rightarrow> True | _ \<Rightarrow> False)"

definition drain_events :: "impl_class \<Rightarrow> ActionInvocation list \<Rightarrow> event list" where
  "drain_events C invs =
     concat (map (\<lambda>i. Hook_executeAction i True #
                       (case on_executeAction C i True of
                          None \<Rightarrow> []
                        | Some e \<Rightarrow> [RethrowAsync e i])) invs)"

definition enqueAll :: "ActionInvocation list \<Rightarrow> element \<Rightarrow> element" where
  "enqueAll invs this = foldl (\<lambda>s i. snd (enqueAction i s)) this invs"

text \<open>\<open>queue_view\<close> is what the queue invariant looks at; \<open>queue_inv\<close> is the
  invariant: an unbuilt element has a queue and no drain pending.\<close>

definition queue_view :: "element \<Rightarrow> bool \<times> ActionInvocation list option \<times> bool" where
  "queue_view s = (built_' s, actionQueue_' s, Task_dequeueActions \<in> set (pending s))"

definition queue_inv :: "element \<Rightarrow> bool" where
  "queue_inv s =
     (\<not> built_' s \<longrightarrow> actionQueue_' s \<noteq> None \<and> Task_dequeueActions \<notin> set (pending s))"

definition action_A :: ActionInvocation where
  "action_A = \<lparr>target_tagName = ''AMP-IMG'', inv_method = ''A''\<rparr>"

definition action_B :: ActionInvocation where
  "action_B = \<lparr>target_tagName = ''AMP-IMG'', inv_method = ''B''\<rparr>"

definition action_C :: ActionInvocation where
  "action_C = \<lparr>target_tagName = ''AMP-IMG'', inv_method = ''C''\<rparr>"

text \<open>A class whose \<^verbatim>\<open>executeAction\<close> throws on method \<open>B\<close>.\<close>

definition flaky_class :: impl_class where
  "flaky_class = sample_class
     \<lparr>on_executeAction :=
        (\<lambda>i d. if inv_method i = ''B'' then Some (HookError ''B failed'') else None)\<rparr>"

subsection \<open>Vocabulary of the upgrade and registry properties\<close>

text \<open>The trace entries that one call of \<^verbatim>\<open>upgrade\<close> adds.\<close>

definition upgrade_events :: "impl_class \<Rightarrow> element \<Rightarrow> event list" where
  "upgrade_events C this = drop (length (trace this)) (trace (snd (upgrade C this)))"

text \<open>A class that does not support the layout FIXED; a stubbed \<open>AMP-IMG\<close> with
  width 300 and height 200 after its first attachment; a registry that holds it with
  two more stubbed elements.\<close>

definition picky_class :: impl_class where
  "picky_class = sample_class\<lparr>isLayoutSupported := (\<lambda>l. l \<noteq> FIXED)\<rparr>"

definition attached_stub :: element where
  "attached_stub =
     snd (attachedCallback sample_ext False
            (sample_element sample_stub ''AMP-IMG''
               [''width'' \<mapsto> ''300'', ''height'' \<mapsto> ''200'']))"

definition sample_registry :: registry where
  "sample_registry =
     \<lparr>knownElements = [''amp-img'' \<mapsto> sample_stub, ''amp-ad'' \<mapsto> sample_stub],
      stubbedElements =
        [attached_stub,
         sample_element sample_stub ''AMP-AD'' Map.empty,
         sample_element sample_stub ''AMP-IMG'' Map.empty],
      registered = [''amp-img'', ''amp-ad''],
      reported = []\<rparr>"

subsection \<open>Vocabulary of the attachment properties\<close>

text \<open>The element \<^verbatim>\<open>attachedCallback\<close> hands to \<^verbatim>\<open>firstAttachedCallback_\<close>: its template
  flag refreshed where the browser lacks template support, and \<^verbatim>\<open>everAttached\<close> set.\<close>

definition first_attach_input :: "externals \<Rightarrow> bool \<Rightarrow> element \<Rightarrow> element" where
  "first_attach_input ext closestTemplate this =
     (if \<not> TEMPLATE_TAG_SUPPORTED ext
      then this\<lparr>isInTemplate_' := Some closestTemplate\<rparr> else this)
       \<lparr>everAttached := True\<rparr>"

text \<open>The element after the first statement of \<^verbatim>\<open>firstAttachedCallback_\<close>, which marks
  an element that is not upgraded as unresolved.\<close>

definition unresolved_marked :: "element \<Rightarrow> element" where
  "unresolved_marked this =
     (if \<not> isUpgraded this
      then classList_add ''-amp-unresolved'' (classList_add ''amp-unresolved'' this)
      else this)"

text \<open>A class whose \<^verbatim>\<open>firstAttachedCallback\<close> throws, and an image of that class with
  width 300 and height 200.\<close>

definition failing_attach_class :: impl_class where
  "failing_attach_class =
     sample_class\<lparr>on_firstAttachedCallback := Some (HookError ''attach failed'')\<rparr>"

definition failing_attach_element :: element where
  "failing_attach_element =
     sample_element failing_attach_class ''AMP-IMG''
       [''width'' \<mapsto> ''300'', ''height'' \<mapsto> ''200'']"

subsection \<open>A sample element for the loading indicator\<close>

text \<open>A measured image, 300 wide, in the viewport, with a show of the indicator
  requested; its \<^verbatim>\<open>layoutCount_\<close> is still 0.\<close>

definition laid_out_element :: element where
  "laid_out_element =
     (sample_element sample_class ''AMP-IMG'' [''width'' \<mapsto> ''300'', ''height'' \<mapsto> ''200''])
       \<lparr>layout_' := FIXED, layoutWidth_' := 300, isInViewport_' := True,
        loadingState_' := Some True\<rparr>"

subsection \<open>Elements that lose queued actions\<close>

text \<open>
  A class whose \<^verbatim>\<open>viewportCallback\<close> throws; an element of it that entered the viewport
  before it was built and then got three actions; and what \<^verbatim>\<open>build()\<close> leaves of it.
\<close>

definition viewport_failing_class :: impl_class where
  "viewport_failing_class =
     sample_class\<lparr>on_viewportCallback := (\<lambda>b. Some (HookError ''viewport failed''))\<rparr>"

definition in_viewport_element :: element where
  "in_viewport_element =
     enqueAll [action_A, action_B, action_C]
       (snd (viewportCallback sample_ext True
               (sample_element viewport_failing_class ''AMP-IMG'' Map.empty)))"

definition stuck_element :: element where
  "stuck_element = snd (build in_viewport_element)"

text \<open>A class whose \<^verbatim>\<open>createdCallback\<close> throws, and what the element's
  \<^verbatim>\<open>createdCallback\<close> leaves behind for it.\<close>

definition created_failing_class :: impl_class where
  "created_failing_class =
     sample_class\<lparr>on_createdCallback := Some (HookError ''created failed'')\<rparr>"

definition half_made_element :: element where
  "half_made_element = snd (createdCallback created_failing_class ''AMP-IMG'' Map.empty [] [])"

text \<open>\<open>stranded q s\<close>: the element is built, still holds the queue \<open>q\<close>, and no
  drain is pending. \<open>perform_all\<close> makes a list of calls, one after the other.\<close>

definition stranded :: "ActionInvocation list \<Rightarrow> element \<Rightarrow> bool" where
  "stranded q s =
     (built_' s \<and> actionQueue_' s = Some q \<and> Task_dequeueActions \<notin> set (pending s))"

definition perform_all :: "externals \<Rightarrow> call list \<Rightarrow> element \<Rightarrow> element" where
  "perform_all ext cs this = foldl (\<lambda>s c. perform ext c s) this cs"

section \<open>Properties\<close>

subsection \<open>Unfolding and evaluation\<close>

lemmas build_defs = build_def assertNotTemplate_'_def isBuilt_def preconnect_def
  updateInViewport_'_def log_def schedule_def classList_remove_def appendChild_def

lemmas sample_defs = sample_element_def createdCallback_def sample_class_def new_impl_def
  classList_add_def log_def isInTemplate_def isUpgraded_def isBuilt_def

subsection \<open>Build\<close>

lemma build_returns_built:
  "build this = (None, t) \<Longrightarrow> built_' t \<and> \<not> isInTemplate t"
  by (auto simp: build_defs isInTemplate_def Let_def
      split: option.splits if_splits prod.splits sum.splits)

text \<open>
  Claim C1. On an element that is already built, \<^verbatim>\<open>build()\<close> leaves the whole
  element as it was: the built flag, the classes, the action queue, and the trace, so
  \<^verbatim>\<open>buildCallback\<close> is not invoked again; outside a template it returns normally (inside
  one, the assertion of \<^verbatim>\<open>assertNotTemplate_\<close> fails, with the element untouched all the
  same). In particular a \<^verbatim>\<open>build()\<close> that follows a \<^verbatim>\<open>build()\<close> that returned does
  nothing.
\<close>

theorem build_idempotent:
  "(built_' this \<longrightarrow>
      snd (build this) = this \<and> (\<not> isInTemplate this \<longrightarrow> build this = (None, this)))
   \<and> (build this = (None, t) \<longrightarrow> build t = (None, t))"
proof -
  have a: "built_' this \<longrightarrow>
      snd (build this) = this \<and> (\<not> isInTemplate this \<longrightarrow> build this = (None, this))"
    by (simp add: build_def assertNotTemplate_'_def isBuilt_def)
  have b: "build this = (None, t) \<longrightarrow> build t = (None, t)"
  proof
    assume "build this = (None, t)"
    then have "built_' t \<and> \<not> isInTemplate t" by (rule build_returns_built)
    then show "build t = (None, t)"
      by (simp add: build_def assertNotTemplate_'_def isBuilt_def)
  qed
  from a b show ?thesis by simp
qed

theorem build_idempotent_witness:
  "build (snd (build (sample_element sample_class ''AMP-IMG'' Map.empty)))
     = (None, snd (build (sample_element sample_class ''AMP-IMG'' Map.empty)))
   \<and> count_list (trace (snd (build (snd (build
          (sample_element sample_class ''AMP-IMG'' Map.empty))))))
        Hook_buildCallback = 1"
proof -
  let ?e = "sample_element sample_class ''AMP-IMG'' Map.empty"
  have ok: "fst (build ?e) = None"
    by (simp add: sample_defs build_defs getPlaceholder_def Let_def)
  then have "build ?e = (None, snd (build ?e))" by (simp add: prod_eq_iff)
  with build_idempotent [of ?e "snd (build ?e)"]
  have twice: "build (snd (build ?e)) = (None, snd (build ?e))" by simp
  have "count_list (trace (snd (build ?e))) Hook_buildCallback = 1"
    by (simp add: sample_defs build_defs getPlaceholder_def Let_def)
  with twice show ?thesis by simp
qed

text \<open>
  Claim C3. On an upgraded element that is not built and whose implementation's
  \<^verbatim>\<open>buildCallback\<close> throws \<open>e\<close>, \<^verbatim>\<open>build()\<close> leaves the element unbuilt, with its
  classes (the not-built classes among them) and its action queue as they were; outside
  a template it calls the hook, reports \<open>e\<close> to the error sink and throws the same
  \<open>e\<close> to its caller, and these two trace entries are all that changes.
\<close>

theorem build_atomic_on_error:
  "isUpgraded this \<and> \<not> built_' this
     \<and> on_buildCallback (cls (implementation_' this)) = Some e \<longrightarrow>
   \<not> built_' (snd (build this))
   \<and> classList (snd (build this)) = classList this
   \<and> actionQueue_' (snd (build this)) = actionQueue_' this
   \<and> (\<not> isInTemplate this \<longrightarrow>
        build this = (Some e, log (Reported e) (log Hook_buildCallback this)))"
  by (simp add: build_def assertNotTemplate_'_def isBuilt_def log_def Let_def)

theorem build_atomic_on_error_witness:
  "build (sample_element failing_build_class ''AMP-IMG'' Map.empty)
     = (Some (HookError ''build failed''),
        log (Reported (HookError ''build failed''))
          (log Hook_buildCallback (sample_element failing_build_class ''AMP-IMG'' Map.empty)))
   \<and> \<not> built_' (snd (build (sample_element failing_build_class ''AMP-IMG'' Map.empty)))
   \<and> classList (snd (build (sample_element failing_build_class ''AMP-IMG'' Map.empty)))
       = [''-amp-element'', ''-amp-notbuilt'', ''amp-notbuilt'']"
proof -
  let ?e = "sample_element failing_build_class ''AMP-IMG'' Map.empty"
  have h: "isUpgraded ?e \<and> \<not> built_' ?e
     \<and> on_buildCallback (cls (implementation_' ?e)) = Some (HookError ''build failed'')"
    by (simp add: sample_defs failing_build_class_def)
  have t: "\<not> isInTemplate ?e" by (simp add: sample_defs failing_build_class_def)
  have c: "classList ?e = [''-amp-element'', ''-amp-notbuilt'', ''amp-notbuilt'']"
    by (simp add: sample_defs failing_build_class_def)
  from build_atomic_on_error [of ?e "HookError ''build failed''"] h t c
  show ?thesis by (simp add: log_def)
qed

subsection \<open>Unlayout\<close>

text \<open>
  Claim C7. On a built and upgraded element (outside a template) whose implementation
  answers \<^verbatim>\<open>unlayoutCallback\<close> with \<open>answer\<close>, \<^verbatim>\<open>unlayoutCallback()\<close> calls the hook
  once, returns \<open>answer\<close>, and sets \<^verbatim>\<open>layoutCount_\<close> to 0 when the answer is true and
  leaves it when the answer is false; nothing else changes. On an element that is not
  built or not upgraded it changes nothing, calls no hook, and (outside a template)
  returns false.
\<close>

theorem unlayoutCallback_resets:
  "(isBuilt this \<and> isUpgraded this \<and> \<not> isInTemplate this
      \<and> on_unlayoutCallback (cls (implementation_' this)) = Inr answer \<longrightarrow>
    unlayoutCallback this =
      (Inr answer,
       (log Hook_unlayoutCallback this)
         \<lparr>layoutCount_' := (if answer then 0 else layoutCount_' this)\<rparr>))
   \<and> (\<not> isBuilt this \<or> \<not> isUpgraded this \<longrightarrow>
        snd (unlayoutCallback this) = this
        \<and> (\<not> isInTemplate this \<longrightarrow> unlayoutCallback this = (Inr False, this)))"
  by (auto simp: unlayoutCallback_def assertNotTemplate_'_def log_def Let_def)

theorem unlayoutCallback_resets_witness:
  "fst (unlayoutCallback ((snd (build (sample_element sample_class ''AMP-IMG'' Map.empty)))
          \<lparr>layoutCount_' := 2\<rparr>)) = Inr True
   \<and> layoutCount_' (snd (unlayoutCallback
          ((snd (build (sample_element sample_class ''AMP-IMG'' Map.empty)))
             \<lparr>layoutCount_' := 2\<rparr>))) = 0
   \<and> unlayoutCallback (sample_element sample_class ''AMP-IMG'' Map.empty)
       = (Inr False, sample_element sample_class ''AMP-IMG'' Map.empty)"
proof -
  let ?e = "sample_element sample_class ''AMP-IMG'' Map.empty"
  let ?b = "(snd (build ?e))\<lparr>layoutCount_' := 2\<rparr>"
  have h: "isBuilt ?b \<and> isUpgraded ?b \<and> \<not> isInTemplate ?b
      \<and> on_unlayoutCallback (cls (implementation_' ?b)) = Inr True"
    by (simp add: sample_defs build_defs getPlaceholder_def Let_def)
  have u: "\<not> isBuilt ?e \<and> \<not> isInTemplate ?e" by (simp add: sample_defs)
  from unlayoutCallback_resets [of ?b True] h
  have 1: "fst (unlayoutCallback ?b) = Inr True
     \<and> layoutCount_' (snd (unlayoutCallback ?b)) = 0" by simp
  from unlayoutCallback_resets [of ?e True] u
  have 2: "unlayoutCallback ?e = (Inr False, ?e)" by simp
  from 1 2 show ?thesis by simp
qed

subsection \<open>Layout resolution\<close>

lemma sample_element_eq:
  "on_createdCallback Ctor = None \<Longrightarrow>
   sample_element Ctor tag as =
     \<lparr>tagName = tag, attrs = as,
      classList = [''-amp-element'', ''-amp-notbuilt'', ''amp-notbuilt''],
      style = Map.empty, children = [], built_' = False, readyState = ''loading'',
      everAttached = False, layout_' = NODISPLAY, layoutWidth_' = - 1, layoutCount_' = 0,
      isInViewport_' = False, sizerElement_' = False, loadingDisabled_' = None,
      loadingState_' = None, loadingContainer_' = None, implementation_' = new_impl Ctor,
      actionQueue_' = Some [], isInTemplate_' = None,
      trace = [Hook_createdCallback], pending = []\<rparr>"
  by (simp add: sample_element_def createdCallback_def classList_add_def log_def)

lemma sample_class_created [simp]: "on_createdCallback sample_class = None"
  by (simp add: sample_class_def)

lemmas attr_defs = getAttribute_def sample_element_eq

text \<open>
  Claim C8, amended. For an element without a \<^verbatim>\<open>layout\<close> attribute, where the
  collaborator's \<^verbatim>\<open>parseLength\<close> accepts \<open>300\<close> and \<open>200\<close> as non-empty lengths \<open>w\<close>
  (not \<open>auto\<close>) and \<open>h\<close>, \<^verbatim>\<open>applyLayout_\<close> returns
  FIXED for width 300 and height 200 without \<^verbatim>\<open>sizes\<close> and \<^verbatim>\<open>heights\<close>;
  FIXED_HEIGHT for height 200 alone, on a tag without natural dimensions;
  RESPONSIVE for width 300, height 200 and a non-empty \<^verbatim>\<open>sizes\<close>, the units of \<open>w\<close> and
  \<open>h\<close> being the same;
  CONTAINER for none of the four attributes, on a tag without natural dimensions.
\<close>

theorem applyLayout_infers:
  "getAttribute element ''layout'' = None \<and> parses_to ext ''300'' w \<and> w \<noteq> ''auto''
     \<and> parses_to ext ''200'' h \<longrightarrow>
   (getAttribute element ''width'' = Some ''300'' \<and> getAttribute element ''height'' = Some ''200''
      \<and> getAttribute element ''sizes'' = None \<and> getAttribute element ''heights'' = None
      \<longrightarrow> resolvedLayout ext element = Inr FIXED)
   \<and> (getAttribute element ''width'' = None \<and> getAttribute element ''height'' = Some ''200''
      \<and> getAttribute element ''sizes'' = None \<and> getAttribute element ''heights'' = None
      \<and> \<not> hasNaturalDimensions ext (tagName element)
      \<longrightarrow> resolvedLayout ext element = Inr FIXED_HEIGHT)
   \<and> (getAttribute element ''width'' = Some ''300'' \<and> getAttribute element ''height'' = Some ''200''
      \<and> getAttribute element ''sizes'' = Some s \<and> s \<noteq> []
      \<and> getLengthUnits ext w = getLengthUnits ext h
      \<longrightarrow> resolvedLayout ext element = Inr RESPONSIVE)
   \<and> (getAttribute element ''width'' = None \<and> getAttribute element ''height'' = None
      \<and> getAttribute element ''sizes'' = None \<and> getAttribute element ''heights'' = None
      \<and> \<not> hasNaturalDimensions ext (tagName element)
      \<longrightarrow> resolvedLayout ext element = Inr CONTAINER)"
  by (auto simp: resolvedLayout_def applyLayout_'_def effectiveLayout_def parses_to_def
      truthy_def Let_def)

theorem applyLayout_infers_witness:
  "resolvedLayout sample_ext
     (sample_element sample_class ''AMP-IMG'' [''width'' \<mapsto> ''300'', ''height'' \<mapsto> ''200''])
     = Inr FIXED
   \<and> resolvedLayout sample_ext
     (sample_element sample_class ''AMP-IMG'' [''height'' \<mapsto> ''200'']) = Inr FIXED_HEIGHT
   \<and> resolvedLayout sample_ext
     (sample_element sample_class ''AMP-IMG''
        [''width'' \<mapsto> ''300'', ''height'' \<mapsto> ''200'',
         ''sizes'' \<mapsto> ''(min-width:300px) 100vw'']) = Inr RESPONSIVE
   \<and> resolvedLayout sample_ext (sample_element sample_class ''AMP-IMG'' Map.empty)
     = Inr CONTAINER"
proof -
  have p: "parses_to sample_ext ''300'' ''300px'' \<and> ''300px'' \<noteq> ''auto''
     \<and> parses_to sample_ext ''200'' ''200px''"
    by (simp add: parses_to_def sample_ext_def digit_def)
  have u: "getLengthUnits sample_ext ''300px'' = getLengthUnits sample_ext ''200px''"
    by (simp add: sample_ext_def digit_def)
  have n: "\<And>as. \<not> hasNaturalDimensions sample_ext
     (tagName (sample_element sample_class ''AMP-IMG'' as))"
    by (simp add: sample_ext_def attr_defs)
  have 1: "resolvedLayout sample_ext
     (sample_element sample_class ''AMP-IMG'' [''width'' \<mapsto> ''300'', ''height'' \<mapsto> ''200''])
     = Inr FIXED"
    using applyLayout_infers [of "sample_element sample_class ''AMP-IMG''
        [''width'' \<mapsto> ''300'', ''height'' \<mapsto> ''200'']" sample_ext "''300px''" "''200px''"] p
    by (simp add: attr_defs)
  have 2: "resolvedLayout sample_ext
     (sample_element sample_class ''AMP-IMG'' [''height'' \<mapsto> ''200'']) = Inr FIXED_HEIGHT"
    using applyLayout_infers [of "sample_element sample_class ''AMP-IMG''
        [''height'' \<mapsto> ''200'']" sample_ext "''300px''" "''200px''"] p n
    by (simp add: attr_defs)
  have 3: "resolvedLayout sample_ext
     (sample_element sample_class ''AMP-IMG''
        [''width'' \<mapsto> ''300'', ''height'' \<mapsto> ''200'',
         ''sizes'' \<mapsto> ''(min-width:300px) 100vw'']) = Inr RESPONSIVE"
    using applyLayout_infers [of "sample_element sample_class ''AMP-IMG''
        [''width'' \<mapsto> ''300'', ''height'' \<mapsto> ''200'',
         ''sizes'' \<mapsto> ''(min-width:300px) 100vw'']" sample_ext "''300px''" "''200px''"
        "''(min-width:300px) 100vw''"] p u
    by (simp add: attr_defs)
  have 4: "resolvedLayout sample_ext (sample_element sample_class ''AMP-IMG'' Map.empty)
     = Inr CONTAINER"
    using applyLayout_infers [of "sample_element sample_class ''AMP-IMG'' Map.empty"
        sample_ext "''300px''" "''200px''"] p n
    by (simp add: attr_defs)
  from 1 2 3 4 show ?thesis by simp
qed

text \<open>
  Claim C8 as stated asks for FIXED_HEIGHT whenever height 200 is the only attribute.
  On a tag with natural dimensions the missing width is replaced by the natural one
  before the layout is inferred, and the layout is FIXED.
\<close>

theorem fixed_height_counterexample:
  "getAttribute (sample_element sample_class ''AMP-PIXEL'' [''height'' \<mapsto> ''200'']) ''layout''
     = None
   \<and> getAttribute (sample_element sample_class ''AMP-PIXEL'' [''height'' \<mapsto> ''200'']) ''width''
     = None
   \<and> getAttribute (sample_element sample_class ''AMP-PIXEL'' [''height'' \<mapsto> ''200'']) ''height''
     = Some ''200''
   \<and> getAttribute (sample_element sample_class ''AMP-PIXEL'' [''height'' \<mapsto> ''200'']) ''sizes''
     = None
   \<and> getAttribute (sample_element sample_class ''AMP-PIXEL'' [''height'' \<mapsto> ''200'']) ''heights''
     = None
   \<and> resolvedLayout sample_ext
       (sample_element sample_class ''AMP-PIXEL'' [''height'' \<mapsto> ''200'']) = Inr FIXED
   \<and> resolvedLayout sample_ext
       (sample_element sample_class ''AMP-PIXEL'' [''height'' \<mapsto> ''200'']) \<noteq> Inr FIXED_HEIGHT"
  by (simp add: resolvedLayout_def applyLayout_'_def effectiveLayout_def truthy_def
      sample_ext_def digit_def attr_defs)

subsection \<open>The action queue\<close>

lemma enqueAction_unbuilt:
  "\<not> built_' this \<Longrightarrow> \<not> isInTemplate this \<Longrightarrow> actionQueue_' this = Some q \<Longrightarrow>
   enqueAction i this = (None, this\<lparr>actionQueue_' := Some (q @ [i])\<rparr>)"
  by (simp add: enqueAction_def assertNotTemplate_'_def isBuilt_def)

lemma enqueAll_unbuilt:
  "\<not> built_' this \<Longrightarrow> \<not> isInTemplate this \<Longrightarrow> actionQueue_' this = Some q \<Longrightarrow>
   enqueAll invs this = this\<lparr>actionQueue_' := Some (q @ invs)\<rparr>"
proof (induction invs arbitrary: this q)
  case Nil
  then show ?case by (simp add: enqueAll_def)
next
  case (Cons i invs)
  let ?s = "this\<lparr>actionQueue_' := Some (q @ [i])\<rparr>"
  have "enqueAll (i # invs) this = enqueAll invs ?s"
    using Cons.prems by (simp add: enqueAll_def enqueAction_unbuilt)
  also have "\<dots> = ?s\<lparr>actionQueue_' := Some ((q @ [i]) @ invs)\<rparr>"
    using Cons.prems by (intro Cons.IH) (simp_all add: isInTemplate_def)
  finally show ?case by simp
qed

lemma executionAction_frame:
  "actionQueue_' (executionAction_' i d s) = actionQueue_' s
   \<and> implementation_' (executionAction_' i d s) = implementation_' s
   \<and> built_' (executionAction_' i d s) = built_' s
   \<and> pending (executionAction_' i d s) = pending s
   \<and> trace (executionAction_' i d s) = trace s @
        Hook_executeAction i d #
          (case on_executeAction (cls (implementation_' s)) i d of
             None \<Rightarrow> [] | Some e \<Rightarrow> [RethrowAsync e i])"
  by (simp add: executionAction_'_def log_def Let_def split: option.splits)

lemma drain_fold:
  "trace (foldl (\<lambda>s i. executionAction_' i True s) s invs)
     = trace s @ drain_events (cls (implementation_' s)) invs
   \<and> actionQueue_' (foldl (\<lambda>s i. executionAction_' i True s) s invs) = actionQueue_' s
   \<and> implementation_' (foldl (\<lambda>s i. executionAction_' i True s) s invs) = implementation_' s
   \<and> built_' (foldl (\<lambda>s i. executionAction_' i True s) s invs) = built_' s
   \<and> pending (foldl (\<lambda>s i. executionAction_' i True s) s invs) = pending s"
proof (induction invs arbitrary: s)
  case Nil
  then show ?case by (simp add: drain_events_def)
next
  case (Cons i invs)
  show ?case
    using Cons.IH [of "executionAction_' i True s"] executionAction_frame [of i True s]
    by (simp add: drain_events_def)
qed

lemma dequeueActions_trace:
  "actionQueue_' s = Some q \<Longrightarrow>
   trace (dequeueActions_' s) = trace s @ drain_events (cls (implementation_' s)) q
   \<and> actionQueue_' (dequeueActions_' s) = None"
  using drain_fold [of "s\<lparr>actionQueue_' := None\<rparr>" q]
  by (simp add: dequeueActions_'_def)

lemma dequeueActions_null: "actionQueue_' s = None \<Longrightarrow> dequeueActions_' s = s"
  by (simp add: dequeueActions_'_def)

lemma drain_events_executed:
  "filter is_executeAction (drain_events C invs) = map (\<lambda>i. Hook_executeAction i True) invs"
  by (induction invs) (auto simp: drain_events_def is_executeAction_def split: option.splits)

lemma build_queue:
  "build s = (None, t) \<Longrightarrow> \<not> built_' s \<Longrightarrow> actionQueue_' s = Some q \<Longrightarrow>
   cls (implementation_' t) = cls (implementation_' s)
   \<and> (q = [] \<longrightarrow> actionQueue_' t = None)
   \<and> (q \<noteq> [] \<longrightarrow> actionQueue_' t = Some q \<and> Task_dequeueActions \<in> set (pending t))"
  by (auto simp: build_defs Let_def
      split: option.splits if_splits prod.splits sum.splits)

text \<open>
  The drain after a \<^verbatim>\<open>build()\<close> that returns. Take an unbuilt element outside a
  template with queue \<open>q\<close>, enqueue the invocations \<open>invs\<close> in order, and let
  \<^verbatim>\<open>build()\<close> return. Then the queue held \<open>q @ invs\<close>; when it is not empty the drain
  is pending with the timer; the drain calls \<^verbatim>\<open>executeAction\<close> (deferred) on exactly
  \<open>q @ invs\<close>, in that order, once each, whether or not an earlier call threw, each
  exception going to \<^verbatim>\<open>rethrowAsync\<close>; the drain leaves the queue null, so a second
  drain does nothing.
\<close>

theorem queued_actions_drain_in_order:
  "\<not> built_' this \<and> \<not> isInTemplate this \<and> actionQueue_' this = Some q
     \<and> build (enqueAll invs this) = (None, s) \<longrightarrow>
   actionQueue_' (enqueAll invs this) = Some (q @ invs)
   \<and> (q @ invs \<noteq> [] \<longrightarrow> Task_dequeueActions \<in> set (pending s))
   \<and> trace (dequeueActions_' s)
       = trace s @ drain_events (cls (implementation_' s)) (q @ invs)
   \<and> filter is_executeAction (drain_events (cls (implementation_' s)) (q @ invs))
       = map (\<lambda>i. Hook_executeAction i True) (q @ invs)
   \<and> actionQueue_' (dequeueActions_' s) = None
   \<and> dequeueActions_' (dequeueActions_' s) = dequeueActions_' s"
proof
  assume h: "\<not> built_' this \<and> \<not> isInTemplate this \<and> actionQueue_' this = Some q
     \<and> build (enqueAll invs this) = (None, s)"
  let ?s1 = "enqueAll invs this"
  have s1: "?s1 = this\<lparr>actionQueue_' := Some (q @ invs)\<rparr>"
    using h by (simp add: enqueAll_unbuilt)
  then have q1: "actionQueue_' ?s1 = Some (q @ invs)" and b1: "\<not> built_' ?s1"
    using h by simp_all
  from h have bs: "build ?s1 = (None, s)" by simp
  note bq = build_queue [OF bs b1 q1]
  show "actionQueue_' ?s1 = Some (q @ invs)
   \<and> (q @ invs \<noteq> [] \<longrightarrow> Task_dequeueActions \<in> set (pending s))
   \<and> trace (dequeueActions_' s)
       = trace s @ drain_events (cls (implementation_' s)) (q @ invs)
   \<and> filter is_executeAction (drain_events (cls (implementation_' s)) (q @ invs))
       = map (\<lambda>i. Hook_executeAction i True) (q @ invs)
   \<and> actionQueue_' (dequeueActions_' s) = None
   \<and> dequeueActions_' (dequeueActions_' s) = dequeueActions_' s"
  proof (cases "q @ invs = []")
    case True
    with bq have "actionQueue_' s = None" by simp
    then have "dequeueActions_' s = s" by (rule dequeueActions_null)
    with True q1 \<open>actionQueue_' s = None\<close> show ?thesis
      by (simp add: drain_events_def)
  next
    case False
    with bq have qs: "actionQueue_' s = Some (q @ invs)"
      and p: "Task_dequeueActions \<in> set (pending s)" by simp_all
    note d = dequeueActions_trace [OF qs]
    from d have "dequeueActions_' (dequeueActions_' s) = dequeueActions_' s"
      by (simp add: dequeueActions_null)
    with d p q1 show ?thesis by (simp add: drain_events_executed)
  qed
qed

lemma queue_view_update [simp]:
  "queue_view (s\<lparr>tagName := x1\<rparr>) = queue_view s"
  "queue_view (s\<lparr>attrs := x2\<rparr>) = queue_view s"
  "queue_view (s\<lparr>classList := x3\<rparr>) = queue_view s"
  "queue_view (s\<lparr>style := x4\<rparr>) = queue_view s"
  "queue_view (s\<lparr>children := x5\<rparr>) = queue_view s"
  "queue_view (s\<lparr>readyState := x6\<rparr>) = queue_view s"
  "queue_view (s\<lparr>everAttached := x7\<rparr>) = queue_view s"
  "queue_view (s\<lparr>layout_' := x8\<rparr>) = queue_view s"
  "queue_view (s\<lparr>layoutWidth_' := x9\<rparr>) = queue_view s"
  "queue_view (s\<lparr>layoutCount_' := x10\<rparr>) = queue_view s"
  "queue_view (s\<lparr>isInViewport_' := x11\<rparr>) = queue_view s"
  "queue_view (s\<lparr>sizerElement_' := x12\<rparr>) = queue_view s"
  "queue_view (s\<lparr>loadingDisabled_' := x13\<rparr>) = queue_view s"
  "queue_view (s\<lparr>loadingState_' := x14\<rparr>) = queue_view s"
  "queue_view (s\<lparr>loadingContainer_' := x15\<rparr>) = queue_view s"
  "queue_view (s\<lparr>implementation_' := x16\<rparr>) = queue_view s"
  "queue_view (s\<lparr>isInTemplate_' := x17\<rparr>) = queue_view s"
  "queue_view (s\<lparr>trace := x18\<rparr>) = queue_view s"
  by (simp_all add: queue_view_def)

lemma queue_view_prims [simp]:
  "queue_view (log ev s) = queue_view s"
  "queue_view (classList_add c s) = queue_view s"
  "queue_view (classList_remove c s) = queue_view s"
  "queue_view (style_set p v s) = queue_view s"
  "queue_view (appendChild ch s) = queue_view s"
  "queue_view (dispatchCustomEvent n s) = queue_view s"
  "t \<noteq> Task_dequeueActions \<Longrightarrow> queue_view (schedule t s) = queue_view s"
  by (simp_all add: queue_view_def log_def classList_add_def classList_remove_def
      style_set_def appendChild_def dispatchCustomEvent_def schedule_def)

lemma queue_inv_view: "queue_view t = queue_view s \<Longrightarrow> queue_inv s \<Longrightarrow> queue_inv t"
  by (auto simp: queue_view_def queue_inv_def)

lemma view_apply_ui [simp]: "queue_view (apply_ui ext l w h s) = queue_view s"
  by (simp add: apply_ui_def Let_def)

lemma view_applyLayout:
  "applyLayout_' ext s = Inr (l, t) \<Longrightarrow> queue_view t = queue_view s"
  by (auto simp: applyLayout_'_def split: sum.splits)

lemma view_isLoadingEnabled [simp]:
  "queue_view (snd (isLoadingEnabled_' ext s)) = queue_view s"
  by (simp add: isLoadingEnabled_'_def Let_def)

lemma view_prepareLoading [simp]: "queue_view (prepareLoading_' ext s) = queue_view s"
  by (simp add: prepareLoading_'_def)

lemma view_toggleLoading [simp]:
  "queue_view (snd (toggleLoading_' ext st cl s)) = queue_view s"
  by (simp add: toggleLoading_'_def assertNotTemplate_'_def Let_def)

lemma view_toggleLoading_mutate [simp]:
  "queue_view (toggleLoading_mutate ext cl s) = queue_view s"
  by (simp add: toggleLoading_mutate_def Let_def split: option.splits)

lemma view_showLoading_delayed [simp]:
  "queue_view (snd (showLoading_delayed ext s)) = queue_view s"
  by (simp add: showLoading_delayed_def)

lemma view_updateInViewport [simp]:
  "queue_view (snd (updateInViewport_' b s)) = queue_view s"
  by (simp add: updateInViewport_'_def Let_def)

lemma view_upgrade [simp]: "queue_view (snd (upgrade C s)) = queue_view s"
  by (simp add: upgrade_def Let_def split: option.splits)

lemma view_firstAttachedCallback [simp]:
  "queue_view (snd (firstAttachedCallback_' ext s)) = queue_view s"
proof (cases "applyLayout_' ext
    (if \<not> isUpgraded s
     then classList_add ''-amp-unresolved'' (classList_add ''amp-unresolved'' s) else s)")
  case (Inl e)
  then show ?thesis by (simp add: firstAttachedCallback_'_def Let_def)
next
  case (Inr r)
  obtain l t where r: "r = (l, t)" by (cases r)
  from view_applyLayout [OF Inr [unfolded r]]
  have "queue_view t = queue_view s" by (simp split: if_splits)
  with Inr r show ?thesis
    by (simp add: firstAttachedCallback_'_def Let_def split: option.splits)
qed

lemma view_attachedCallback [simp]:
  "queue_view (snd (attachedCallback ext ct s)) = queue_view s"
proof -
  have "queue_view (case firstAttachedCallback_' ext u of
            (Some e, t) \<Rightarrow> log (Reported e) t | (None, t) \<Rightarrow> t) = queue_view u" for u
  proof (cases "firstAttachedCallback_' ext u")
    case (Pair r t)
    with view_firstAttachedCallback [of ext u] show ?thesis by (cases r) simp_all
  qed
  then show ?thesis by (simp add: attachedCallback_def Let_def)
qed

lemma view_detachedCallback [simp]: "queue_view (snd (detachedCallback s)) = queue_view s"
  by (simp add: detachedCallback_def)

lemma view_viewportCallback [simp]:
  "queue_view (snd (viewportCallback ext b s)) = queue_view s"
proof (cases "isInTemplate s")
  case True
  then show ?thesis by (simp add: viewportCallback_def assertNotTemplate_'_def)
next
  case False
  let ?s1 = "s\<lparr>isInViewport_' := b\<rparr>"
  let ?p = "(if layoutCount_' ?s1 = 0 then
               (if \<not> b then toggleLoading_' ext False False ?s1
                else (None, schedule Task_showLoading ?s1))
             else (None, ?s1))"
  have v: "queue_view (snd ?p) = queue_view s" by simp
  show ?thesis
  proof (cases ?p)
    case (Pair r t)
    with v have "queue_view t = queue_view s" by simp
    with Pair False show ?thesis
      by (cases r) (simp_all add: viewportCallback_def assertNotTemplate_'_def Let_def)
  qed
qed

lemma view_updateLayoutBox [simp]:
  "queue_view (snd (updateLayoutBox ext box s)) = queue_view s"
  by (simp add: updateLayoutBox_def Let_def split: option.splits)

lemma view_layoutCallback [simp]: "queue_view (snd (layoutCallback s)) = queue_view s"
  by (simp add: layoutCallback_def assertNotTemplate_'_def preconnect_def Let_def
      split: option.splits)

lemma view_layoutCallback_resolved [simp]:
  "queue_view (snd (layoutCallback_resolved ext s)) = queue_view s"
proof -
  let ?s1 = "s\<lparr>readyState := ''complete'', layoutCount_' := layoutCount_' s + 1\<rparr>"
  have v: "queue_view (snd (toggleLoading_' ext False True ?s1)) = queue_view s" by simp
  show ?thesis
  proof (cases "toggleLoading_' ext False True ?s1")
    case (Pair r t)
    with v have "queue_view t = queue_view s" by simp
    with Pair show ?thesis
      by (cases r) (simp_all add: layoutCallback_resolved_def Let_def)
  qed
qed

lemma view_layoutCallback_rejected [simp]:
  "queue_view (snd (layoutCallback_rejected ext r s)) = queue_view s"
proof (cases "toggleLoading_' ext False True s")
  case (Pair r' t)
  with view_toggleLoading [of ext False True s] have "queue_view t = queue_view s" by simp
  with Pair show ?thesis by (cases r') (simp_all add: layoutCallback_rejected_def)
qed

lemma view_pauseCallback [simp]: "queue_view (snd (pauseCallback s)) = queue_view s"
  by (simp add: pauseCallback_def assertNotTemplate_'_def)

lemma view_resumeCallback [simp]: "queue_view (snd (resumeCallback s)) = queue_view s"
  by (simp add: resumeCallback_def assertNotTemplate_'_def)

lemma view_unlayoutCallback [simp]: "queue_view (snd (unlayoutCallback s)) = queue_view s"
  by (simp add: unlayoutCallback_def assertNotTemplate_'_def Let_def split: sum.splits)

lemma view_executionAction [simp]:
  "queue_view (executionAction_' i d s) = queue_view s"
  by (simp add: executionAction_'_def Let_def split: option.splits)

lemma built_drain [simp]:
  "built_' (foldl (\<lambda>s i. executionAction_' i True s) s invs) = built_' s"
proof (induction invs arbitrary: s)
  case Nil
  show ?case by simp
next
  case (Cons i invs)
  have "built_' (executionAction_' i True s) = built_' s"
    using view_executionAction [of i True s] by (simp add: queue_view_def)
  with Cons.IH [of "executionAction_' i True s"] show ?case by simp
qed

lemma built_dequeueActions [simp]: "built_' (dequeueActions_' s) = built_' s"
  by (simp add: dequeueActions_'_def split: option.splits)

lemma pending_prims [simp]:
  "pending (classList_add c s) = pending s"
  "pending (log ev s) = pending s"
  by (simp_all add: classList_add_def log_def)

lemma inv_created:
  "createdCallback Ctor tag as cs ch = (None, s) \<Longrightarrow> queue_inv s"
  by (auto simp: createdCallback_def queue_inv_def Let_def split: option.splits)

lemma inv_enqueAction: "queue_inv s \<Longrightarrow> queue_inv (snd (enqueAction i s))"
proof (cases "built_' s")
  case True
  assume "queue_inv s"
  have "built_' (executionAction_' i False s) = built_' s"
    using view_executionAction [of i False s] by (simp add: queue_view_def)
  with True show ?thesis
    by (simp add: enqueAction_def assertNotTemplate_'_def isBuilt_def queue_inv_def
        split: option.splits)
next
  case False
  assume "queue_inv s"
  with False show ?thesis
    by (auto simp: enqueAction_def assertNotTemplate_'_def isBuilt_def queue_inv_def
        split: option.splits)
qed

lemma inv_build: "queue_inv s \<Longrightarrow> queue_inv (snd (build s))"
proof (cases "isInTemplate s \<or> built_' s \<or> \<not> isUpgraded s
              \<or> on_buildCallback (cls (implementation_' s)) \<noteq> None")
  case True
  assume "queue_inv s"
  with True show ?thesis
    by (auto simp: build_def assertNotTemplate_'_def isBuilt_def queue_inv_def log_def
        Let_def split: option.splits)
next
  case False
  have "built_' (snd (build s))"
    using False
    by (auto simp: build_defs Let_def split: option.splits prod.splits sum.splits)
  then show ?thesis by (simp add: queue_inv_def)
qed

lemma inv_fire: "queue_inv s \<Longrightarrow> queue_inv (snd (fire ext n s))"
proof (cases "n < length (pending s)")
  case False
  assume "queue_inv s"
  with False show ?thesis by (simp add: fire_def)
next
  case True
  assume inv: "queue_inv s"
  let ?s' = "s\<lparr>pending := take n (pending s) @ drop (Suc n) (pending s)\<rparr>"
  have sub: "set (pending ?s') \<subseteq> set (pending s)"
    using set_take_subset [of n "pending s"] set_drop_subset [of "Suc n" "pending s"]
    by auto
  with inv have inv': "queue_inv ?s'" by (auto simp: queue_inv_def)
  show ?thesis
  proof (cases "pending s ! n")
    case Task_dequeueActions
    with True have "Task_dequeueActions \<in> set (pending s)" by (metis nth_mem)
    with inv have "built_' s" by (auto simp: queue_inv_def)
    with True Task_dequeueActions show ?thesis
      by (simp add: fire_def run_task_def queue_inv_def)
  next
    case Task_preconnect
    with True inv' show ?thesis
      by (auto simp: fire_def run_task_def intro: queue_inv_view [rotated])
  next
    case Task_showLoading
    with True inv' show ?thesis
      by (auto simp: fire_def run_task_def intro: queue_inv_view [rotated])
  next
    case (Task_toggleLoading cl)
    with True inv' show ?thesis
      by (auto simp: fire_def run_task_def intro: queue_inv_view [rotated])
  next
    case Task_prepareLoading
    with True inv' show ?thesis
      by (auto simp: fire_def run_task_def intro: queue_inv_view [rotated])
  next
    case (Task_removeElement c)
    with True inv' show ?thesis
      by (auto simp: fire_def run_task_def intro: queue_inv_view [rotated])
  qed
qed

lemma inv_perform: "queue_inv s \<Longrightarrow> queue_inv (perform ext c s)"
  by (cases c)
     (auto simp: perform_def inv_build inv_enqueAction inv_fire
        intro: queue_inv_view [rotated])

lemma reachable_queue_inv: "reachable ext s \<Longrightarrow> queue_inv s"
  by (induction rule: reachable.induct) (auto intro: inv_created inv_perform)

text \<open>
  A \<^verbatim>\<open>createdCallback\<close> whose implementation hook throws stops before it assigns
  \<^verbatim>\<open>actionQueue_\<close>: what it leaves behind is unbuilt without a queue, and
  \<^verbatim>\<open>enqueAction\<close> on it fails the assertion on the queue.
\<close>

lemma queue_prims [simp]:
  "actionQueue_' (classList_add c s) = actionQueue_' s"
  "actionQueue_' (log ev s) = actionQueue_' s"
  "built_' (classList_add c s) = built_' s"
  "built_' (log ev s) = built_' s"
  "isInTemplate_' (classList_add c s) = isInTemplate_' s"
  "isInTemplate_' (log ev s) = isInTemplate_' s"
  by (simp_all add: classList_add_def log_def)

lemma createdCallback_throws:
  "on_createdCallback Ctor = Some e \<Longrightarrow>
   fst (createdCallback Ctor tag as cs ch) = Some e
   \<and> \<not> built_' (snd (createdCallback Ctor tag as cs ch))
   \<and> actionQueue_' (snd (createdCallback Ctor tag as cs ch)) = None
   \<and> fst (enqueAction i (snd (createdCallback Ctor tag as cs ch)))
       = Some (DevAssert ''Assertion failed'')"
  by (simp add: createdCallback_def enqueAction_def assertNotTemplate_'_def isBuilt_def
      isInTemplate_def Let_def)

text \<open>
  The invariant of the queue, for the elements whose \<^verbatim>\<open>createdCallback\<close> returned.
  Every element that a completed \<^verbatim>\<open>createdCallback\<close> made and calls brought to where it
  is has, as long as it is not built, a non-null action queue and no drain pending: the
  queue is nulled only by \<^verbatim>\<open>build()\<close> after it set the built flag, or by the drain
  that such a build scheduled. So \<^verbatim>\<open>enqueAction\<close> on such an unbuilt element never
  fails its assertion on the queue, and (outside a template, where the method's first
  assertion holds) appends the invocation to the queue.
\<close>

theorem unbuilt_queue_never_null:
  "reachable ext this \<and> \<not> built_' this \<longrightarrow>
   (\<exists>q. actionQueue_' this = Some q
        \<and> Task_dequeueActions \<notin> set (pending this)
        \<and> fst (enqueAction i this) \<noteq> Some (DevAssert ''Assertion failed'')
        \<and> (\<not> isInTemplate this \<longrightarrow>
             enqueAction i this = (None, this\<lparr>actionQueue_' := Some (q @ [i])\<rparr>)))"
proof
  assume h: "reachable ext this \<and> \<not> built_' this"
  then have "queue_inv this" by (auto intro: reachable_queue_inv)
  with h obtain q where q: "actionQueue_' this = Some q"
    and p: "Task_dequeueActions \<notin> set (pending this)"
    by (auto simp: queue_inv_def)
  from h q have "fst (enqueAction i this) \<noteq> Some (DevAssert ''Assertion failed'')
        \<and> (\<not> isInTemplate this \<longrightarrow>
             enqueAction i this = (None, this\<lparr>actionQueue_' := Some (q @ [i])\<rparr>))"
    by (simp add: enqueAction_def assertNotTemplate_'_def isBuilt_def)
  with q p show "\<exists>q. actionQueue_' this = Some q
        \<and> Task_dequeueActions \<notin> set (pending this)
        \<and> fst (enqueAction i this) \<noteq> Some (DevAssert ''Assertion failed'')
        \<and> (\<not> isInTemplate this \<longrightarrow>
             enqueAction i this = (None, this\<lparr>actionQueue_' := Some (q @ [i])\<rparr>))"
    by blast
qed

subsection \<open>The action queue on sample elements\<close>

lemma createdCallback_sample:
  "on_createdCallback Ctor = None \<Longrightarrow>
   createdCallback Ctor tag as [] [] = (None, sample_element Ctor tag as)"
  by (simp add: sample_element_def createdCallback_def Let_def)

lemma flaky_class_created [simp]: "on_createdCallback flaky_class = None"
  by (simp add: flaky_class_def sample_class_def)

theorem queued_actions_drain_in_order_witness:
  "trace (dequeueActions_' (snd (build (enqueAll [action_A, action_B, action_C]
       (sample_element flaky_class ''AMP-IMG'' Map.empty)))))
   = trace (snd (build (enqueAll [action_A, action_B, action_C]
       (sample_element flaky_class ''AMP-IMG'' Map.empty))))
     @ [Hook_executeAction action_A True,
        Hook_executeAction action_B True, RethrowAsync (HookError ''B failed'') action_B,
        Hook_executeAction action_C True]"
proof -
  let ?e = "sample_element flaky_class ''AMP-IMG'' Map.empty"
  let ?invs = "[action_A, action_B, action_C]"
  have h: "\<not> built_' ?e \<and> \<not> isInTemplate ?e \<and> actionQueue_' ?e = Some []"
    by (simp add: sample_element_eq isInTemplate_def)
  have q: "enqueAll ?invs ?e = ?e\<lparr>actionQueue_' := Some ([] @ ?invs)\<rparr>"
    using h by (intro enqueAll_unbuilt) simp_all
  have ok: "fst (build (enqueAll ?invs ?e)) = None"
    unfolding q
    by (simp add: sample_element_eq build_defs isInTemplate_def isUpgraded_def new_impl_def
        flaky_class_def sample_class_def getPlaceholder_def Let_def)
  then have b: "build (enqueAll ?invs ?e) = (None, snd (build (enqueAll ?invs ?e)))"
    by (simp add: prod_eq_iff)
  have c: "cls (implementation_' (snd (build (enqueAll ?invs ?e)))) = flaky_class"
    unfolding q
    by (simp add: sample_element_eq build_defs isInTemplate_def isUpgraded_def new_impl_def
        flaky_class_def sample_class_def getPlaceholder_def Let_def)
  have d: "drain_events flaky_class ?invs
     = [Hook_executeAction action_A True,
        Hook_executeAction action_B True, RethrowAsync (HookError ''B failed'') action_B,
        Hook_executeAction action_C True]"
    by (simp add: drain_events_def flaky_class_def action_A_def action_B_def action_C_def)
  from queued_actions_drain_in_order
         [of ?e "[]" ?invs "snd (build (enqueAll ?invs ?e))"] h b c d
  show ?thesis by simp
qed

theorem unbuilt_queue_never_null_witness:
  "enqueAction action_B
     (perform sample_ext (Call_enqueAction action_A)
        (sample_element sample_class ''AMP-IMG'' Map.empty))
   = (None,
      (perform sample_ext (Call_enqueAction action_A)
         (sample_element sample_class ''AMP-IMG'' Map.empty))
        \<lparr>actionQueue_' := Some [action_A, action_B]\<rparr>)"
proof -
  let ?e = "sample_element sample_class ''AMP-IMG'' Map.empty"
  let ?e1 = "perform sample_ext (Call_enqueAction action_A) ?e"
  have "reachable sample_ext ?e"
    by (rule reachable.created [OF createdCallback_sample]) simp
  then have r: "reachable sample_ext ?e1" by (rule reachable.performed)
  have e1: "?e1 = ?e\<lparr>actionQueue_' := Some [action_A]\<rparr>"
    by (simp add: perform_def enqueAction_def assertNotTemplate_'_def isBuilt_def
        isInTemplate_def sample_element_eq)
  have u: "\<not> built_' ?e1 \<and> \<not> isInTemplate ?e1 \<and> actionQueue_' ?e1 = Some [action_A]"
    unfolding e1 by (simp add: sample_element_eq isInTemplate_def)
  from unbuilt_queue_never_null [of sample_ext ?e1 action_B] r u
  show ?thesis by auto
qed

subsection \<open>Upgrade\<close>

lemma upgrade_trace:
  "trace (snd (upgrade C this)) = trace this @
     (if isInTemplate this then []
      else Hook_createdCallback #
        (if on_createdCallback C \<noteq> None
            \<or> (layout_' this \<noteq> NODISPLAY \<and> \<not> isLayoutSupported C (layout_' this))
         then []
         else if everAttached this then
           Hook_firstAttachedCallback #
             (if on_firstAttachedCallback C \<noteq> None then []
              else [Dispatched ''amp:attached'', Resources_upgraded])
         else []))"
  by (auto simp: upgrade_def log_def classList_remove_def dispatchCustomEvent_def Let_def
      split: option.splits)

lemma upgrade_events_eq:
  "upgrade_events C this =
     (if isInTemplate this then []
      else Hook_createdCallback #
        (if on_createdCallback C \<noteq> None
            \<or> (layout_' this \<noteq> NODISPLAY \<and> \<not> isLayoutSupported C (layout_' this))
         then []
         else if everAttached this then
           Hook_firstAttachedCallback #
             (if on_firstAttachedCallback C \<noteq> None then []
              else [Dispatched ''amp:attached'', Resources_upgraded])
         else []))"
  unfolding upgrade_events_def upgrade_trace by simp

text \<open>
  Claim C2, amended. \<^verbatim>\<open>upgrade(newImplClass)\<close> calls the new implementation's
  \<^verbatim>\<open>firstAttachedCallback\<close> at most once, and exactly once if and only if the element
  was attached before (\<^verbatim>\<open>everAttached\<close>), is not in a template, the new
  implementation's \<^verbatim>\<open>createdCallback\<close> returned, and the element's layout is NODISPLAY
  or supported by the new implementation. It dispatches \<^verbatim>\<open>amp:attached\<close> exactly once
  under the same conditions when that \<^verbatim>\<open>firstAttachedCallback\<close> returns, and never
  otherwise. Upgrading an element that was never attached calls no first-attach hook
  and dispatches nothing.
\<close>

theorem upgrade_first_attach:
  "count_list (upgrade_events C this) Hook_firstAttachedCallback =
     (if everAttached this \<and> \<not> isInTemplate this \<and> on_createdCallback C = None
         \<and> (layout_' this = NODISPLAY \<or> isLayoutSupported C (layout_' this))
      then 1 else 0)
   \<and> count_list (upgrade_events C this) (Dispatched ''amp:attached'') =
     (if everAttached this \<and> \<not> isInTemplate this \<and> on_createdCallback C = None
         \<and> (layout_' this = NODISPLAY \<or> isLayoutSupported C (layout_' this))
         \<and> on_firstAttachedCallback C = None
      then 1 else 0)
   \<and> (\<not> everAttached this \<longrightarrow>
        Hook_firstAttachedCallback \<notin> set (upgrade_events C this)
        \<and> Dispatched ''amp:attached'' \<notin> set (upgrade_events C this))"
  by (simp add: upgrade_events_eq)

lemma sample_stub_created [simp]: "on_createdCallback sample_stub = None"
  by (simp add: sample_stub_def sample_class_def)

lemma attached_stub_eq:
  "attached_stub =
     (sample_element sample_stub ''AMP-IMG'' [''width'' \<mapsto> ''300'', ''height'' \<mapsto> ''200''])
       \<lparr>classList := [''-amp-element'', ''-amp-notbuilt'', ''amp-notbuilt'', ''amp-unresolved'',
                       ''-amp-unresolved'', ''-amp-layout'', ''-amp-layout-size-defined''],
        style := [''width'' \<mapsto> ''300px'', ''height'' \<mapsto> ''200px''],
        everAttached := True, layout_' := FIXED,
        implementation_' := (new_impl sample_stub)\<lparr>impl_layout_' := Some FIXED\<rparr>,
        trace := [Hook_createdCallback, Hook_firstAttachedCallback,
                  Dispatched ''amp:stubbed'', Resources_add]\<rparr>"
  by (simp add: attached_stub_def attachedCallback_def firstAttachedCallback_'_def
      applyLayout_'_def effectiveLayout_def apply_ui_def sample_element_eq isInTemplate_def
      isUpgraded_def new_impl_def sample_stub_def sample_class_def sample_ext_def digit_def
      getAttribute_def truthy_def classList_add_def style_set_def log_def
      dispatchCustomEvent_def Let_def)

theorem upgrade_first_attach_witness:
  "count_list (upgrade_events sample_class attached_stub) Hook_firstAttachedCallback = 1
   \<and> count_list (upgrade_events sample_class attached_stub) (Dispatched ''amp:attached'') = 1
   \<and> Hook_firstAttachedCallback \<notin> set (upgrade_events sample_class
         (sample_element sample_stub ''AMP-IMG'' Map.empty))
   \<and> Dispatched ''amp:attached'' \<notin> set (upgrade_events sample_class
         (sample_element sample_stub ''AMP-IMG'' Map.empty))"
proof -
  have a: "everAttached attached_stub \<and> \<not> isInTemplate attached_stub
     \<and> layout_' attached_stub = FIXED"
    by (simp add: attached_stub_eq sample_element_eq isInTemplate_def)
  have c: "on_createdCallback sample_class = None \<and> isLayoutSupported sample_class FIXED
     \<and> on_firstAttachedCallback sample_class = None"
    by (simp add: sample_class_def)
  have u: "\<not> everAttached (sample_element sample_stub ''AMP-IMG'' Map.empty)"
    by (simp add: sample_element_eq)
  from upgrade_first_attach [of sample_class attached_stub] a c
  have 1: "count_list (upgrade_events sample_class attached_stub) Hook_firstAttachedCallback = 1
   \<and> count_list (upgrade_events sample_class attached_stub) (Dispatched ''amp:attached'') = 1"
    by simp
  from upgrade_first_attach [of sample_class "sample_element sample_stub ''AMP-IMG'' Map.empty"] u
  have 2: "Hook_firstAttachedCallback \<notin> set (upgrade_events sample_class
         (sample_element sample_stub ''AMP-IMG'' Map.empty))
   \<and> Dispatched ''amp:attached'' \<notin> set (upgrade_events sample_class
         (sample_element sample_stub ''AMP-IMG'' Map.empty))"
    by simp
  from 1 2 show ?thesis by simp
qed

text \<open>
  Claim C2 as stated has the first-attach hook fire for every attached element. The
  stubbed image above is attached with layout FIXED; upgraded to a class that does not
  support FIXED, \<^verbatim>\<open>upgrade\<close> throws before the first-attach hook and dispatches
  nothing.
\<close>

theorem upgrade_unsupported_layout_counterexample:
  "\<not> isUpgraded attached_stub \<and> everAttached attached_stub
   \<and> fst (upgrade picky_class attached_stub) = Some (LayoutNotSupported FIXED)
   \<and> count_list (upgrade_events picky_class attached_stub) Hook_firstAttachedCallback = 0
   \<and> count_list (upgrade_events picky_class attached_stub) (Dispatched ''amp:attached'') = 0"
proof -
  have a: "\<not> isUpgraded attached_stub \<and> everAttached attached_stub
     \<and> \<not> isInTemplate attached_stub \<and> layout_' attached_stub = FIXED"
    by (simp add: attached_stub_eq sample_element_eq isInTemplate_def isUpgraded_def
        new_impl_def sample_stub_def)
  have c: "on_createdCallback picky_class = None \<and> \<not> isLayoutSupported picky_class FIXED"
    by (simp add: picky_class_def sample_class_def)
  from a c have "fst (upgrade picky_class attached_stub) = Some (LayoutNotSupported FIXED)"
    by (simp add: upgrade_def log_def classList_remove_def Let_def)
  with a c show ?thesis by (simp add: upgrade_events_eq)
qed

subsection \<open>The registry\<close>

lemma upgrade_stubs_eq:
  "upgrade_stubs name toClass els =
     (map (\<lambda>el. if toLowerCase (tagName el) = name then snd (upgrade toClass el) else el) els,
      concat (map (\<lambda>el. if toLowerCase (tagName el) = name
                          then (case fst (upgrade toClass el) of None \<Rightarrow> [] | Some e \<Rightarrow> [e])
                          else []) els))"
proof (induction els)
  case Nil
  show ?case by simp
next
  case (Cons el els)
  show ?case
  proof (cases "upgrade toClass el")
    case (Pair r t)
    with Cons.IH show ?thesis by (cases r) simp_all
  qed
qed

text \<open>
  Claim C10. When the registry holds a class other than the stub for \<open>name\<close>,
  \<^verbatim>\<open>upgradeOrRegisterElement\<close> fails a user assertion and leaves the registry as it was.
  When it holds the stub, the call returns normally, the entry becomes the new class,
  every stubbed element whose lower-cased tag is \<open>name\<close> is upgraded (each to the
  element its own \<^verbatim>\<open>upgrade\<close> leaves, whatever happened to the elements before it) and
  the others are untouched, and the errors reported are exactly the ones those upgrades
  threw, in order.
\<close>

theorem duplicate_registration_rejected:
  "(knownElements w name = Some known \<and> \<not> stub known \<longrightarrow>
      (\<exists>m. fst (upgradeOrRegisterElement name toClass w) = Some (UserAssert m))
      \<and> snd (upgradeOrRegisterElement name toClass w) = w)
   \<and> (knownElements w name = Some known \<and> stub known \<longrightarrow>
      fst (upgradeOrRegisterElement name toClass w) = None
      \<and> knownElements (snd (upgradeOrRegisterElement name toClass w))
          = (knownElements w)(name \<mapsto> toClass)
      \<and> stubbedElements (snd (upgradeOrRegisterElement name toClass w))
          = map (\<lambda>el. if toLowerCase (tagName el) = name then snd (upgrade toClass el) else el)
              (stubbedElements w)
      \<and> reported (snd (upgradeOrRegisterElement name toClass w))
          = reported w
            @ concat (map (\<lambda>el. if toLowerCase (tagName el) = name
                                 then (case fst (upgrade toClass el) of
                                         None \<Rightarrow> [] | Some e \<Rightarrow> [e])
                                 else [])
                        (stubbedElements w)))"
  by (simp add: upgradeOrRegisterElement_def upgrade_stubs_eq Let_def)

theorem duplicate_registration_rejected_witness:
  "fst (upgradeOrRegisterElement ''amp-img'' picky_class sample_registry) = None
   \<and> reported (snd (upgradeOrRegisterElement ''amp-img'' picky_class sample_registry))
       = [LayoutNotSupported FIXED]
   \<and> map isUpgraded
        (stubbedElements (snd (upgradeOrRegisterElement ''amp-img'' picky_class sample_registry)))
       = [True, False, True]
   \<and> upgradeOrRegisterElement ''amp-img'' sample_class
        (snd (upgradeOrRegisterElement ''amp-img'' picky_class sample_registry))
       = (Some (UserAssert (''%s is already registered. The script tag for ''
                            @ ''%s is likely included twice in the page.'')),
          snd (upgradeOrRegisterElement ''amp-img'' picky_class sample_registry))"
proof -
  let ?w = "snd (upgradeOrRegisterElement ''amp-img'' picky_class sample_registry)"
  have k: "knownElements sample_registry ''amp-img'' = Some sample_stub \<and> stub sample_stub"
    by (simp add: sample_registry_def sample_stub_def)
  have tags: "toLowerCase (tagName attached_stub) = ''amp-img''
     \<and> toLowerCase (tagName (sample_element sample_stub ''AMP-AD'' Map.empty)) \<noteq> ''amp-img''
     \<and> toLowerCase (tagName (sample_element sample_stub ''AMP-IMG'' Map.empty)) = ''amp-img''"
    by (simp add: attached_stub_eq sample_element_eq toLowerCase_def lower_char_def)
  have a: "\<not> isInTemplate attached_stub \<and> layout_' attached_stub = FIXED"
    by (simp add: attached_stub_eq sample_element_eq isInTemplate_def)
  have c: "on_createdCallback picky_class = None \<and> \<not> isLayoutSupported picky_class FIXED
     \<and> \<not> stub picky_class"
    by (simp add: picky_class_def sample_class_def)
  have u1: "fst (upgrade picky_class attached_stub) = Some (LayoutNotSupported FIXED)
     \<and> isUpgraded (snd (upgrade picky_class attached_stub))"
    using a c
    by (simp add: upgrade_def log_def classList_remove_def isUpgraded_def new_impl_def Let_def)
  have u3: "fst (upgrade picky_class (sample_element sample_stub ''AMP-IMG'' Map.empty)) = None
     \<and> isUpgraded (snd (upgrade picky_class (sample_element sample_stub ''AMP-IMG'' Map.empty)))"
    using c
    by (simp add: upgrade_def log_def classList_remove_def isUpgraded_def new_impl_def
        isInTemplate_def sample_element_eq Let_def)
  have s2: "\<not> isUpgraded (sample_element sample_stub ''AMP-AD'' Map.empty)"
    by (simp add: sample_element_eq isUpgraded_def new_impl_def sample_stub_def)
  from duplicate_registration_rejected [of sample_registry "''amp-img''" sample_stub picky_class] k
  have r: "fst (upgradeOrRegisterElement ''amp-img'' picky_class sample_registry) = None
      \<and> knownElements ?w = (knownElements sample_registry)(''amp-img'' \<mapsto> picky_class)
      \<and> stubbedElements ?w
          = map (\<lambda>el. if toLowerCase (tagName el) = ''amp-img''
                       then snd (upgrade picky_class el) else el)
              (stubbedElements sample_registry)
      \<and> reported ?w
          = reported sample_registry
            @ concat (map (\<lambda>el. if toLowerCase (tagName el) = ''amp-img''
                                 then (case fst (upgrade picky_class el) of
                                         None \<Rightarrow> [] | Some e \<Rightarrow> [e])
                                 else [])
                        (stubbedElements sample_registry))"
    by simp
  from r tags u1 u3 s2 have 1: "reported ?w = [LayoutNotSupported FIXED]
     \<and> map isUpgraded (stubbedElements ?w) = [True, False, True]"
    by (simp add: sample_registry_def)
  from r c have k2: "knownElements ?w ''amp-img'' = Some picky_class \<and> \<not> stub picky_class"
    by simp
  from duplicate_registration_rejected [of ?w "''amp-img''" picky_class sample_class] k2
  have 2: "(\<exists>m. fst (upgradeOrRegisterElement ''amp-img'' sample_class ?w) = Some (UserAssert m))
      \<and> snd (upgradeOrRegisterElement ''amp-img'' sample_class ?w) = ?w"
    by simp
  from k2 have 3: "fst (upgradeOrRegisterElement ''amp-img'' sample_class ?w)
      = Some (UserAssert (''%s is already registered. The script tag for ''
                            @ ''%s is likely included twice in the page.''))"
    by (simp add: upgradeOrRegisterElement_def)
  from r 1 2 3 show ?thesis by (simp add: prod_eq_iff)
qed

subsection \<open>First attachment\<close>

lemma effectiveLayout_cong:
  assumes "attrs s = attrs t" and "tagName s = tagName t"
  shows "effectiveLayout ext s = effectiveLayout ext t"
  unfolding effectiveLayout_def getAttribute_def assms by (rule refl)

lemma effectiveLayout_unresolved:
  "effectiveLayout ext (unresolved_marked s) = effectiveLayout ext s"
  by (rule effectiveLayout_cong) (simp_all add: unresolved_marked_def classList_add_def)

lemma implementation_prims [simp]:
  "implementation_' (classList_add c s) = implementation_' s"
  "implementation_' (style_set p v s) = implementation_' s"
  by (simp_all add: classList_add_def style_set_def)

lemma implementation_apply_ui [simp]:
  "implementation_' (apply_ui ext l w h s) = implementation_' s"
  by (simp add: apply_ui_def Let_def)

lemma implementation_unresolved [simp]:
  "implementation_' (unresolved_marked s) = implementation_' s"
  by (simp add: unresolved_marked_def)

lemma resolvedLayout_Inl:
  "resolvedLayout ext s = Inl e \<longleftrightarrow> effectiveLayout ext s = Inl e"
  by (simp add: resolvedLayout_def applyLayout_'_def split: sum.splits prod.splits)

lemma resolvedLayout_Inr:
  "resolvedLayout ext s = Inr l \<longleftrightarrow> (\<exists>w h. effectiveLayout ext s = Inr (l, w, h))"
  by (auto simp: resolvedLayout_def applyLayout_'_def split: sum.splits prod.splits)

lemma firstAttachedCallback_layout_fails:
  assumes "effectiveLayout ext s = Inl e"
  shows "firstAttachedCallback_' ext s = (Some e, log (Reported e) (unresolved_marked s))"
proof -
  have "applyLayout_' ext (unresolved_marked s) = Inl e"
    using assms by (simp add: applyLayout_'_def effectiveLayout_unresolved)
  then show ?thesis
    unfolding firstAttachedCallback_'_def unresolved_marked_def Let_def by simp
qed

lemma firstAttachedCallback_layout_ok:
  assumes "effectiveLayout ext s = Inr (l, w, h)"
  shows "firstAttachedCallback_' ext s =
     (if l \<noteq> NODISPLAY \<and> \<not> isLayoutSupported (cls (implementation_' s)) l
      then (Some (LayoutNotSupportedFor l),
            log (Reported (LayoutNotSupportedFor l))
              ((apply_ui ext l w h (unresolved_marked s))\<lparr>layout_' := l\<rparr>))
      else
        (case on_firstAttachedCallback (cls (implementation_' s)) of
           Some e \<Rightarrow>
             (Some e,
              log (Reported e) (log Hook_firstAttachedCallback
                ((apply_ui ext l w h (unresolved_marked s))
                   \<lparr>layout_' := l,
                    implementation_' := (implementation_' s)\<lparr>impl_layout_' := Some l\<rparr>\<rparr>)))
         | None \<Rightarrow>
             (None,
              dispatchCustomEvent (if \<not> isUpgraded s then ''amp:stubbed'' else ''amp:attached'')
                (log Hook_firstAttachedCallback
                  ((apply_ui ext l w h (unresolved_marked s))
                     \<lparr>layout_' := l,
                      implementation_' := (implementation_' s)\<lparr>impl_layout_' := Some l\<rparr>\<rparr>)))))"
proof -
  have a: "applyLayout_' ext (unresolved_marked s)
      = Inr (l, apply_ui ext l w h (unresolved_marked s))"
    using assms by (simp add: applyLayout_'_def effectiveLayout_unresolved)
  have i: "implementation_' (apply_ui ext l w h (unresolved_marked s)) = implementation_' s"
    by simp
  show ?thesis
    unfolding firstAttachedCallback_'_def unresolved_marked_def [symmetric] Let_def a
    by (simp add: i log_def isUpgraded_def split: option.splits)
qed

lemma firstAttachedCallback_reports:
  assumes "firstAttachedCallback_' ext this = (Some e, t)"
  shows "\<exists>pre. trace t = pre @ [Reported e]"
proof (cases "effectiveLayout ext this")
  case (Inl e')
  from firstAttachedCallback_layout_fails [OF Inl] assms show ?thesis
    by (auto simp: log_def)
next
  case (Inr r)
  obtain l w h where r: "r = (l, w, h)" by (cases r)
  from firstAttachedCallback_layout_ok [OF Inr [unfolded r]] assms show ?thesis
    by (auto simp: log_def dispatchCustomEvent_def split: if_splits option.splits)
qed

text \<open>
  Claim C5, amended. Whatever \<^verbatim>\<open>firstAttachedCallback_\<close> throws, it has reported
  to the error sink just before; it throws the assertion that layout resolution fails,
  and the exception of the implementation's \<^verbatim>\<open>firstAttachedCallback\<close> (when the layout
  resolves and is supported). \<^verbatim>\<open>attachedCallback\<close>, its only caller, never throws: on
  the first attachment it catches that exception, reports it a second time, hands the
  element to the resource tracker and returns normally.
\<close>

theorem first_attach_errors_reported_not_propagated:
  "(firstAttachedCallback_' ext this = (Some e, t) \<longrightarrow> (\<exists>pre. trace t = pre @ [Reported e]))
   \<and> (resolvedLayout ext this = Inl e \<longrightarrow> fst (firstAttachedCallback_' ext this) = Some e)
   \<and> (resolvedLayout ext this = Inr l
        \<and> (l = NODISPLAY \<or> isLayoutSupported (cls (implementation_' this)) l)
        \<and> on_firstAttachedCallback (cls (implementation_' this)) = Some e \<longrightarrow>
        fst (firstAttachedCallback_' ext this) = Some e)
   \<and> fst (attachedCallback ext closestTemplate this) = None
   \<and> (\<not> everAttached this \<and> \<not> isInTemplate (first_attach_input ext closestTemplate this)
        \<and> firstAttachedCallback_' ext (first_attach_input ext closestTemplate this)
            = (Some e, t) \<longrightarrow>
        snd (attachedCallback ext closestTemplate this)
          = log Resources_add (log (Reported e) t))"
proof -
  have 1: "firstAttachedCallback_' ext this = (Some e, t) \<longrightarrow>
      (\<exists>pre. trace t = pre @ [Reported e])"
    using firstAttachedCallback_reports by blast
  have 2: "resolvedLayout ext this = Inl e \<longrightarrow> fst (firstAttachedCallback_' ext this) = Some e"
    by (simp add: resolvedLayout_Inl firstAttachedCallback_layout_fails)
  have 3: "resolvedLayout ext this = Inr l
        \<and> (l = NODISPLAY \<or> isLayoutSupported (cls (implementation_' this)) l)
        \<and> on_firstAttachedCallback (cls (implementation_' this)) = Some e \<longrightarrow>
        fst (firstAttachedCallback_' ext this) = Some e"
  proof
    assume h: "resolvedLayout ext this = Inr l
        \<and> (l = NODISPLAY \<or> isLayoutSupported (cls (implementation_' this)) l)
        \<and> on_firstAttachedCallback (cls (implementation_' this)) = Some e"
    then obtain w ht where eff: "effectiveLayout ext this = Inr (l, w, ht)"
      by (auto simp: resolvedLayout_Inr)
    from h show "fst (firstAttachedCallback_' ext this) = Some e"
      by (auto simp: firstAttachedCallback_layout_ok [OF eff])
  qed
  have 4: "fst (attachedCallback ext closestTemplate this) = None"
    by (simp add: attachedCallback_def Let_def)
  have 5: "\<not> everAttached this \<and> \<not> isInTemplate (first_attach_input ext closestTemplate this)
        \<and> firstAttachedCallback_' ext (first_attach_input ext closestTemplate this)
            = (Some e, t) \<longrightarrow>
        snd (attachedCallback ext closestTemplate this)
          = log Resources_add (log (Reported e) t)"
    by (auto simp: attachedCallback_def first_attach_input_def isInTemplate_def Let_def)
  from 1 2 3 4 5 show ?thesis by blast
qed

lemma failing_attach_class_created [simp]: "on_createdCallback failing_attach_class = None"
  by (simp add: failing_attach_class_def sample_class_def)

lemma trace_prims [simp]:
  "trace (classList_add c s) = trace s"
  "trace (style_set p v s) = trace s"
  by (simp_all add: classList_add_def style_set_def)

lemma trace_apply_ui [simp]: "trace (apply_ui ext l w h s) = trace s"
  by (simp add: apply_ui_def Let_def)

lemma trace_unresolved [simp]: "trace (unresolved_marked s) = trace s"
  by (simp add: unresolved_marked_def)

lemma fa_eff:
  "effectiveLayout sample_ext (failing_attach_element\<lparr>everAttached := True\<rparr>)
     = Inr (FIXED, Some ''300px'', Some ''200px'')"
  by (simp add: effectiveLayout_def failing_attach_element_def sample_element_eq
      getAttribute_def truthy_def sample_ext_def digit_def)

lemma fa_cls:
  "cls (implementation_' (failing_attach_element\<lparr>everAttached := True\<rparr>))
     = failing_attach_class"
  by (simp add: failing_attach_element_def sample_element_eq new_impl_def)

lemma fa_first:
  "firstAttachedCallback_' sample_ext (failing_attach_element\<lparr>everAttached := True\<rparr>)
     = (Some (HookError ''attach failed''),
        snd (firstAttachedCallback_' sample_ext
               (failing_attach_element\<lparr>everAttached := True\<rparr>)))"
proof -
  have "fst (firstAttachedCallback_' sample_ext
               (failing_attach_element\<lparr>everAttached := True\<rparr>))
     = Some (HookError ''attach failed'')"
    unfolding firstAttachedCallback_layout_ok [OF fa_eff] fa_cls
    by (simp add: failing_attach_class_def sample_class_def)
  then show ?thesis by (simp add: prod_eq_iff)
qed

lemma fa_first_trace:
  "trace (snd (firstAttachedCallback_' sample_ext
                 (failing_attach_element\<lparr>everAttached := True\<rparr>)))
     = [Hook_createdCallback, Hook_firstAttachedCallback,
        Reported (HookError ''attach failed'')]"
proof -
  have t: "trace (failing_attach_element\<lparr>everAttached := True\<rparr>) = [Hook_createdCallback]"
    by (simp add: failing_attach_element_def sample_element_eq)
  have c: "isLayoutSupported failing_attach_class FIXED
     \<and> on_firstAttachedCallback failing_attach_class = Some (HookError ''attach failed'')"
    by (simp add: failing_attach_class_def sample_class_def)
  show ?thesis
    unfolding firstAttachedCallback_layout_ok [OF fa_eff] fa_cls
    using c t by (simp add: log_def)
qed

lemma fa_attached:
  "attachedCallback sample_ext False failing_attach_element
     = (None, log Resources_add (log (Reported (HookError ''attach failed''))
          (snd (firstAttachedCallback_' sample_ext
                  (failing_attach_element\<lparr>everAttached := True\<rparr>)))))"
proof -
  have tts: "TEMPLATE_TAG_SUPPORTED sample_ext" by (simp add: sample_ext_def)
  have n: "\<not> everAttached failing_attach_element \<and> \<not> isInTemplate failing_attach_element"
    by (simp add: failing_attach_element_def sample_element_eq isInTemplate_def)
  obtain t where t: "firstAttachedCallback_' sample_ext
      (failing_attach_element\<lparr>everAttached := True\<rparr>) = (Some (HookError ''attach failed''), t)"
    using fa_first by blast
  show ?thesis
    unfolding attachedCallback_def Let_def
    using tts n by (simp add: t)
qed

text \<open>
  Claim C5 as stated has the exception reach the caller of the attach operation. On
  the first attachment of an element whose \<^verbatim>\<open>firstAttachedCallback\<close> throws,
  \<^verbatim>\<open>attachedCallback\<close> returns normally, the error reported twice.
\<close>

theorem first_attach_error_swallowed_counterexample:
  "on_firstAttachedCallback (cls (implementation_' failing_attach_element))
     = Some (HookError ''attach failed'')
   \<and> \<not> everAttached failing_attach_element
   \<and> fst (attachedCallback sample_ext False failing_attach_element) = None
   \<and> trace (snd (attachedCallback sample_ext False failing_attach_element))
     = [Hook_createdCallback, Hook_firstAttachedCallback,
        Reported (HookError ''attach failed''), Reported (HookError ''attach failed''),
        Resources_add]"
proof -
  have "on_firstAttachedCallback (cls (implementation_' failing_attach_element))
     = Some (HookError ''attach failed'')
   \<and> \<not> everAttached failing_attach_element"
    by (simp add: failing_attach_element_def sample_element_eq new_impl_def
        failing_attach_class_def sample_class_def)
  then show ?thesis
    unfolding fa_attached by (simp add: log_def fa_first_trace)
qed

theorem first_attach_errors_reported_not_propagated_witness:
  "fst (firstAttachedCallback_' sample_ext
          (first_attach_input sample_ext False failing_attach_element))
     = Some (HookError ''attach failed'')
   \<and> fst (attachedCallback sample_ext False failing_attach_element) = None
   \<and> (\<exists>pre. trace (snd (firstAttachedCallback_' sample_ext
          (first_attach_input sample_ext False failing_attach_element)))
        = pre @ [Reported (HookError ''attach failed'')])
   \<and> snd (attachedCallback sample_ext False failing_attach_element)
     = log Resources_add (log (Reported (HookError ''attach failed''))
         (snd (firstAttachedCallback_' sample_ext
            (first_attach_input sample_ext False failing_attach_element))))"
proof -
  let ?e = "failing_attach_element"
  let ?i = "first_attach_input sample_ext False ?e"
  let ?x = "HookError ''attach failed''"
  have i: "?i = ?e\<lparr>everAttached := True\<rparr>"
    by (simp add: first_attach_input_def sample_ext_def)
  have r: "resolvedLayout sample_ext ?i = Inr FIXED"
    unfolding i resolvedLayout_Inr using fa_eff by blast
  have c: "isLayoutSupported (cls (implementation_' ?i)) FIXED
     \<and> on_firstAttachedCallback (cls (implementation_' ?i)) = Some ?x"
    unfolding i fa_cls by (simp add: failing_attach_class_def sample_class_def)
  have n: "\<not> everAttached ?e \<and> \<not> isInTemplate ?i"
    unfolding i
    by (simp add: failing_attach_element_def sample_element_eq isInTemplate_def)
  note th = first_attach_errors_reported_not_propagated
    [of sample_ext ?i ?x "snd (firstAttachedCallback_' sample_ext ?i)" FIXED False]
  from th r c have 1: "fst (firstAttachedCallback_' sample_ext ?i) = Some ?x" by blast
  then have p: "firstAttachedCallback_' sample_ext ?i
      = (Some ?x, snd (firstAttachedCallback_' sample_ext ?i))"
    by (simp add: prod_eq_iff)
  from th p have 2: "\<exists>pre. trace (snd (firstAttachedCallback_' sample_ext ?i))
      = pre @ [Reported ?x]" by blast
  note th' = first_attach_errors_reported_not_propagated
    [of sample_ext ?e ?x "snd (firstAttachedCallback_' sample_ext ?i)" FIXED False]
  from th' have 3: "fst (attachedCallback sample_ext False ?e) = None" by blast
  from th' n p have 4: "snd (attachedCallback sample_ext False ?e)
      = log Resources_add (log (Reported ?x) (snd (firstAttachedCallback_' sample_ext ?i)))"
    by blast
  from 1 2 3 4 show ?thesis by blast
qed

subsection \<open>The loading indicator\<close>

lemma container_prims [simp]:
  "loadingContainer_' (log ev s) = loadingContainer_' s"
  "loadingContainer_' (schedule t s) = loadingContainer_' s"
  by (simp_all add: log_def schedule_def)

lemma isLoadingEnabled_laid_out:
  "layoutCount_' s \<ge> 1 \<Longrightarrow> \<not> fst (isLoadingEnabled_' ext s)"
  by (simp add: isLoadingEnabled_'_def Let_def)

lemma isLoadingEnabled_frame [simp]:
  "loadingContainer_' (snd (isLoadingEnabled_' ext s)) = loadingContainer_' s"
  "layoutCount_' (snd (isLoadingEnabled_' ext s)) = layoutCount_' s"
  "pending (snd (isLoadingEnabled_' ext s)) = pending s"
  "isInViewport_' (snd (isLoadingEnabled_' ext s)) = isInViewport_' s"
  by (simp_all add: isLoadingEnabled_'_def Let_def)

lemma container_toggleLoading [simp]:
  "loadingContainer_' (snd (toggleLoading_' ext st cl s)) = loadingContainer_' s"
  by (simp add: toggleLoading_'_def assertNotTemplate_'_def Let_def)

lemma toggleLoading_on_laid_out:
  "layoutCount_' s \<ge> 1 \<Longrightarrow>
   pending (snd (toggleLoading_' ext True cl s)) = pending s
   \<and> (\<not> isInTemplate s \<longrightarrow>
        loadingState_' (snd (toggleLoading_' ext True cl s)) = Some False)"
proof -
  assume "layoutCount_' s \<ge> 1"
  then have "\<not> fst (isLoadingEnabled_' ext (s\<lparr>loadingState_' := Some True\<rparr>))"
    by (simp add: isLoadingEnabled_laid_out)
  then show ?thesis
    by (simp add: toggleLoading_'_def assertNotTemplate_'_def Let_def)
qed

lemma container_updateInViewport [simp]:
  "loadingContainer_' (snd (updateInViewport_' b s)) = loadingContainer_' s"
  by (simp add: updateInViewport_'_def Let_def)

lemma container_showLoading_delayed [simp]:
  "loadingContainer_' (snd (showLoading_delayed ext s)) = loadingContainer_' s"
  by (simp add: showLoading_delayed_def)

lemma container_viewportCallback [simp]:
  "loadingContainer_' (snd (viewportCallback ext b s)) = loadingContainer_' s"
proof (cases "isInTemplate s")
  case True
  then show ?thesis by (simp add: viewportCallback_def assertNotTemplate_'_def)
next
  case False
  let ?s1 = "s\<lparr>isInViewport_' := b\<rparr>"
  let ?p = "(if layoutCount_' ?s1 = 0 then
               (if \<not> b then toggleLoading_' ext False False ?s1
                else (None, schedule Task_showLoading ?s1))
             else (None, ?s1))"
  have v: "loadingContainer_' (snd ?p) = loadingContainer_' s" by simp
  show ?thesis
  proof (cases ?p)
    case (Pair r t)
    with v have "loadingContainer_' t = loadingContainer_' s" by simp
    with Pair False show ?thesis
      by (cases r) (simp_all add: viewportCallback_def assertNotTemplate_'_def Let_def)
  qed
qed

lemma container_updateLayoutBox [simp]:
  "loadingContainer_' (snd (updateLayoutBox ext box s)) = loadingContainer_' s"
  by (simp add: updateLayoutBox_def Let_def split: option.splits)

lemma shown_prepareLoading [simp]:
  "loadingShown (prepareLoading_' ext s) = loadingShown s"
  by (simp add: prepareLoading_'_def loadingShown_def appendChild_def)

lemma mutate_laid_out:
  "layoutCount_' s \<ge> 1 \<Longrightarrow> \<not> loadingShown (toggleLoading_mutate ext cl s)"
proof -
  assume "layoutCount_' s \<ge> 1"
  then have "\<not> fst (isLoadingEnabled_' ext s)" by (simp add: isLoadingEnabled_laid_out)
  then show ?thesis
    by (auto simp: toggleLoading_mutate_def loadingShown_def schedule_def Let_def
        split: option.splits)
qed

text \<open>
  Claim C6. On an element whose \<^verbatim>\<open>layoutCount_\<close> is at least 1,
  \<^verbatim>\<open>isLoadingEnabled_\<close> answers false; none of \<^verbatim>\<open>viewportCallback\<close> (entering or
  leaving), \<^verbatim>\<open>updateLayoutBox\<close>, \<^verbatim>\<open>toggleLoading_\<close>, the debounced callback of
  \<^verbatim>\<open>viewportCallback\<close>, the vsync callback of \<^verbatim>\<open>toggleLoading_\<close> and
  \<^verbatim>\<open>prepareLoading_\<close> leaves the indicator showing unless it showed before; a pending
  vsync callback leaves it hidden; the debounced callback does nothing; and
  \<^verbatim>\<open>toggleLoading_(true)\<close> schedules nothing and records the state false. The viewport
  flag plays no part.
\<close>

theorem no_loading_after_layout:
  "layoutCount_' this \<ge> 1 \<longrightarrow>
     \<not> fst (isLoadingEnabled_' ext this)
   \<and> (loadingShown (perform_loading ext c this) \<longrightarrow> loadingShown this)
   \<and> \<not> loadingShown (toggleLoading_mutate ext opt_cleanup this)
   \<and> showLoading_delayed ext this = (None, this)
   \<and> pending (snd (toggleLoading_' ext True opt_cleanup this)) = pending this
   \<and> (\<not> isInTemplate this \<longrightarrow>
        loadingState_' (snd (toggleLoading_' ext True opt_cleanup this)) = Some False)"
proof
  assume h: "layoutCount_' this \<ge> 1"
  have 1: "\<not> fst (isLoadingEnabled_' ext this)"
    using h by (rule isLoadingEnabled_laid_out)
  have 2: "loadingShown (perform_loading ext c this) \<longrightarrow> loadingShown this"
  proof (cases c)
    case (Loading_toggleLoading_mutate cl)
    with mutate_laid_out [OF h, of ext cl] show ?thesis by (simp add: perform_loading_def)
  next
    case Loading_prepareLoading
    then show ?thesis by (simp add: perform_loading_def)
  qed (simp_all add: perform_loading_def loadingShown_def)
  have 3: "\<not> loadingShown (toggleLoading_mutate ext opt_cleanup this)"
    using h by (rule mutate_laid_out)
  have 4: "showLoading_delayed ext this = (None, this)"
    using h by (simp add: showLoading_delayed_def)
  note 5 = toggleLoading_on_laid_out [OF h, of ext opt_cleanup]
  from 1 2 3 4 5 show "\<not> fst (isLoadingEnabled_' ext this)
   \<and> (loadingShown (perform_loading ext c this) \<longrightarrow> loadingShown this)
   \<and> \<not> loadingShown (toggleLoading_mutate ext opt_cleanup this)
   \<and> showLoading_delayed ext this = (None, this)
   \<and> pending (snd (toggleLoading_' ext True opt_cleanup this)) = pending this
   \<and> (\<not> isInTemplate this \<longrightarrow>
        loadingState_' (snd (toggleLoading_' ext True opt_cleanup this)) = Some False)"
    by blast
qed

theorem no_loading_after_layout_witness:
  "loadingShown (toggleLoading_mutate sample_ext False laid_out_element)
   \<and> \<not> loadingShown (toggleLoading_mutate sample_ext False
          (laid_out_element\<lparr>layoutCount_' := 1\<rparr>))
   \<and> \<not> fst (isLoadingEnabled_' sample_ext (laid_out_element\<lparr>layoutCount_' := 1\<rparr>))
   \<and> \<not> loadingShown (perform_loading sample_ext (Loading_viewportCallback True)
          (laid_out_element\<lparr>layoutCount_' := 1\<rparr>))
   \<and> showLoading_delayed sample_ext (laid_out_element\<lparr>layoutCount_' := 1\<rparr>)
       = (None, laid_out_element\<lparr>layoutCount_' := 1\<rparr>)"
proof -
  let ?e = "laid_out_element\<lparr>layoutCount_' := 1\<rparr>"
  have h: "layoutCount_' ?e \<ge> 1" by simp
  have n: "\<not> loadingShown ?e"
    by (simp add: loadingShown_def laid_out_element_def sample_element_eq)
  have 0: "loadingShown (toggleLoading_mutate sample_ext False laid_out_element)"
    by (simp add: toggleLoading_mutate_def isLoadingEnabled_'_def prepareLoading_'_def
        isInternalOrServiceNode_def hasAttribute_def MIN_WIDTH_FOR_LOADING_'_def
        loadingShown_def appendChild_def laid_out_element_def sample_element_eq
        sample_ext_def Let_def)
  from no_loading_after_layout [of ?e sample_ext "Loading_viewportCallback True" False] h n
  have "\<not> fst (isLoadingEnabled_' sample_ext ?e)
   \<and> \<not> loadingShown (perform_loading sample_ext (Loading_viewportCallback True) ?e)
   \<and> \<not> loadingShown (toggleLoading_mutate sample_ext False ?e)
   \<and> showLoading_delayed sample_ext ?e = (None, ?e)"
    by blast
  with 0 show ?thesis by blast
qed

subsection \<open>Where queued actions are lost\<close>

lemma stranded_view: "queue_view t = queue_view s \<Longrightarrow> stranded q s \<Longrightarrow> stranded q t"
  by (auto simp: queue_view_def stranded_def)

lemma stranded_build: "stranded q s \<Longrightarrow> snd (build s) = s"
  by (simp add: stranded_def build_def assertNotTemplate_'_def isBuilt_def)

lemma stranded_enqueAction: "stranded q s \<Longrightarrow> stranded q (snd (enqueAction i s))"
proof -
  assume h: "stranded q s"
  have "queue_view (snd (enqueAction i s)) = queue_view s"
    using h by (simp add: stranded_def enqueAction_def assertNotTemplate_'_def isBuilt_def)
  then show ?thesis using h by (rule stranded_view)
qed

lemma stranded_fire: "stranded q s \<Longrightarrow> stranded q (snd (fire ext n s))"
proof (cases "n < length (pending s)")
  case False
  assume "stranded q s"
  with False show ?thesis by (simp add: fire_def)
next
  case True
  assume h: "stranded q s"
  let ?s' = "s\<lparr>pending := take n (pending s) @ drop (Suc n) (pending s)\<rparr>"
  have sub: "set (pending ?s') \<subseteq> set (pending s)"
    using set_take_subset [of n "pending s"] set_drop_subset [of "Suc n" "pending s"]
    by auto
  with h have h': "stranded q ?s'" by (auto simp: stranded_def)
  from True have "pending s ! n \<in> set (pending s)" by simp
  with h have ne: "pending s ! n \<noteq> Task_dequeueActions" by (auto simp: stranded_def)
  have "queue_view (snd (run_task ext (pending s ! n) ?s')) = queue_view ?s'"
    using ne by (cases "pending s ! n") (simp_all add: run_task_def)
  then have "stranded q (snd (run_task ext (pending s ! n) ?s'))"
    using h' by (rule stranded_view)
  with True show ?thesis by (simp add: fire_def)
qed

lemma stranded_perform: "stranded q s \<Longrightarrow> stranded q (perform ext c s)"
  by (cases c)
     (auto simp: perform_def stranded_build stranded_enqueAction stranded_fire
        intro: stranded_view [rotated])

lemma stranded_perform_all: "stranded q s \<Longrightarrow> stranded q (perform_all ext cs s)"
  unfolding perform_all_def
  by (induction cs arbitrary: s) (simp_all add: stranded_perform)

lemma viewport_failing_class_created [simp]: "on_createdCallback viewport_failing_class = None"
  by (simp add: viewport_failing_class_def sample_class_def)

lemma in_viewport_element_eq:
  "in_viewport_element =
     (sample_element viewport_failing_class ''AMP-IMG'' Map.empty)
       \<lparr>isInViewport_' := True, actionQueue_' := Some [action_A, action_B, action_C],
        pending := [Task_showLoading]\<rparr>"
proof -
  let ?e = "sample_element viewport_failing_class ''AMP-IMG'' Map.empty"
  have v: "snd (viewportCallback sample_ext True ?e)
      = ?e\<lparr>isInViewport_' := True, pending := [Task_showLoading]\<rparr>"
    by (simp add: viewportCallback_def assertNotTemplate_'_def isInTemplate_def isBuilt_def
        schedule_def sample_element_eq Let_def)
  have "enqueAll [action_A, action_B, action_C]
          (?e\<lparr>isInViewport_' := True, pending := [Task_showLoading]\<rparr>)
      = (?e\<lparr>isInViewport_' := True, pending := [Task_showLoading]\<rparr>)
          \<lparr>actionQueue_' := Some ([] @ [action_A, action_B, action_C])\<rparr>"
    by (rule enqueAll_unbuilt) (simp_all add: sample_element_eq isInTemplate_def)
  with v show ?thesis by (simp add: in_viewport_element_def sample_element_eq)
qed

text \<open>
  Claim C4. The actions enqueued before build, in order A, B, C, should be executed by
  the deferred drain after build, in that order, once. The code loses them when the
  element entered the viewport before it was built and the implementation's
  \<^verbatim>\<open>viewportCallback\<close> throws: \<^verbatim>\<open>build()\<close> sets the built flag, replays the viewport
  state outside its \<^verbatim>\<open>try\<close> and before it looks at the queue, and the exception ends
  it. The element is left built, with A, B, C still queued, no drain pending and no
  \<^verbatim>\<open>executeAction\<close> called; a later \<^verbatim>\<open>build()\<close> returns at once, and whatever calls
  follow, the queue stays as it is.
\<close>

theorem build_viewport_replay_strands_queue:
  "\<not> built_' in_viewport_element
   \<and> actionQueue_' in_viewport_element = Some [action_A, action_B, action_C]
   \<and> fst (build in_viewport_element) = Some (HookError ''viewport failed'')
   \<and> built_' stuck_element
   \<and> actionQueue_' stuck_element = Some [action_A, action_B, action_C]
   \<and> pending stuck_element = [Task_showLoading, Task_preconnect]
   \<and> filter is_executeAction (trace stuck_element) = []
   \<and> build stuck_element = (None, stuck_element)
   \<and> stranded [action_A, action_B, action_C] (perform_all ext cs stuck_element)"
proof -
  have b: "build in_viewport_element
     = (Some (HookError ''viewport failed''),
        (sample_element viewport_failing_class ''AMP-IMG'' Map.empty)
          \<lparr>classList := [''-amp-element''], built_' := True, isInViewport_' := True,
           implementation_' := (new_impl viewport_failing_class)
              \<lparr>impl_inViewport_' := Some True\<rparr>,
           actionQueue_' := Some [action_A, action_B, action_C],
           trace := [Hook_createdCallback, Hook_buildCallback, Hook_viewportCallback True],
           pending := [Task_showLoading, Task_preconnect]\<rparr>)"
    unfolding in_viewport_element_eq
    by (simp add: build_defs isInTemplate_def isUpgraded_def sample_element_eq new_impl_def
        viewport_failing_class_def sample_class_def Let_def)
  have s: "stuck_element
     = (sample_element viewport_failing_class ''AMP-IMG'' Map.empty)
          \<lparr>classList := [''-amp-element''], built_' := True, isInViewport_' := True,
           implementation_' := (new_impl viewport_failing_class)
              \<lparr>impl_inViewport_' := Some True\<rparr>,
           actionQueue_' := Some [action_A, action_B, action_C],
           trace := [Hook_createdCallback, Hook_buildCallback, Hook_viewportCallback True],
           pending := [Task_showLoading, Task_preconnect]\<rparr>"
    by (simp add: stuck_element_def b)
  have 1: "\<not> built_' in_viewport_element
   \<and> actionQueue_' in_viewport_element = Some [action_A, action_B, action_C]"
    by (simp add: in_viewport_element_eq sample_element_eq)
  have 2: "fst (build in_viewport_element) = Some (HookError ''viewport failed'')"
    by (simp add: b)
  have 3: "built_' stuck_element
   \<and> actionQueue_' stuck_element = Some [action_A, action_B, action_C]
   \<and> pending stuck_element = [Task_showLoading, Task_preconnect]
   \<and> filter is_executeAction (trace stuck_element) = []"
    by (simp add: s is_executeAction_def)
  have 4: "build stuck_element = (None, stuck_element)"
    unfolding s
    by (simp add: build_def assertNotTemplate_'_def isBuilt_def isInTemplate_def
        sample_element_eq)
  from 3 have "stranded [action_A, action_B, action_C] stuck_element"
    by (simp add: stranded_def)
  then have 5: "stranded [action_A, action_B, action_C] (perform_all ext cs stuck_element)"
    by (rule stranded_perform_all)
  from 1 2 3 4 5 show ?thesis by simp
qed

text \<open>
  Claim C9. An element that is not built should always have a non-null action queue, so
  that \<^verbatim>\<open>enqueAction\<close> never meets a null queue and drops no action. The code breaks
  this when the implementation's \<^verbatim>\<open>createdCallback\<close> throws: the element's
  \<^verbatim>\<open>createdCallback\<close> calls the hook before it assigns the queue, so the element is
  left unbuilt without a queue; it still attaches normally, and \<^verbatim>\<open>enqueAction\<close> on it
  fails \<^verbatim>\<open>dev.assert(this.actionQueue_)\<close> and the action is lost.
\<close>

theorem created_hook_throw_leaves_no_queue:
  "fst (createdCallback created_failing_class ''AMP-IMG'' Map.empty [] [])
     = Some (HookError ''created failed'')
   \<and> \<not> built_' half_made_element
   \<and> actionQueue_' half_made_element = None
   \<and> enqueAction action_A half_made_element
       = (Some (DevAssert ''Assertion failed''), half_made_element)
   \<and> fst (attachedCallback sample_ext False half_made_element) = None"
proof -
  have h: "half_made_element =
     \<lparr>tagName = ''AMP-IMG'', attrs = Map.empty,
      classList = [''-amp-element'', ''-amp-notbuilt'', ''amp-notbuilt''],
      style = Map.empty, children = [], built_' = False, readyState = ''loading'',
      everAttached = False, layout_' = NODISPLAY, layoutWidth_' = - 1, layoutCount_' = 0,
      isInViewport_' = False, sizerElement_' = False, loadingDisabled_' = None,
      loadingState_' = None, loadingContainer_' = None,
      implementation_' = new_impl created_failing_class,
      actionQueue_' = None, isInTemplate_' = None,
      trace = [Hook_createdCallback], pending = []\<rparr>"
    by (simp add: half_made_element_def createdCallback_def classList_add_def log_def
        created_failing_class_def sample_class_def)
  have 1: "fst (createdCallback created_failing_class ''AMP-IMG'' Map.empty [] [])
     = Some (HookError ''created failed'')"
    by (simp add: createdCallback_def created_failing_class_def sample_class_def Let_def)
  have 2: "\<not> built_' half_made_element \<and> actionQueue_' half_made_element = None"
    by (simp add: h)
  have 3: "enqueAction action_A half_made_element
       = (Some (DevAssert ''Assertion failed''), half_made_element)"
    using 2 by (simp add: enqueAction_def assertNotTemplate_'_def isBuilt_def isInTemplate_def h)
  have 4: "fst (attachedCallback sample_ext False half_made_element) = None"
    by (simp add: attachedCallback_def Let_def)
  from 1 2 3 4 show ?thesis by simp
qed

end
